theory Spec2Isabelle
  imports Complex_Main
begin

section \<open>Asynchronous package information: the embedding\<close>

text \<open>
  The development follows \<^verbatim>\<open>SessionAsyncPackageInformation.cpp\<close>: the two static
  members of \<^verbatim>\<open>AsyncPackageInformationProcess\<close>, the destructor of
  \<^verbatim>\<open>CompleteUpdateOnExit\<close>, the helpers \<^verbatim>\<open>fillFormalInfo\<close> and
  \<^verbatim>\<open>fillFunctionInfo\<close>, and the members \<^verbatim>\<open>onCompleted\<close> and \<^verbatim>\<open>update\<close>.
  Mutation of the statics, of the source index and of the log is explicit state passing;
  the C++ exception that can leave \<^verbatim>\<open>onCompleted\<close> is a value.
\<close>

subsection \<open>JSON values and the accessors the file calls\<close>

text \<open>
  Modelled from the spec: the JSON library (\<^verbatim>\<open>core/json/Json.hpp\<close>,
  \<^verbatim>\<open>core/json/JsonRpc.hpp\<close>) is not part of the file. A value is one of the seven
  JSON kinds. An object is kept as the list of its members in iteration order; the file
  uses it through \<^verbatim>\<open>begin()/end()\<close>, \<^verbatim>\<open>count(key)\<close> and \<^verbatim>\<open>operator[]\<close>, which
  read the first member stored under a key. The payload of \<open>JInt\<close> is the number as
  \<^verbatim>\<open>get_value<int>()\<close> hands it to the caller.
\<close>

datatype json =
    JNull
  | JBool bool
  | JInt int
  | JReal real
  | JString string
  | JArray "json list"
  | JObject "(string \<times> json) list"

type_synonym json_object = "(string \<times> json) list"

datatype json_type =
  ObjectType | ArrayType | StringType | BooleanType | IntegerType | RealType | NullType

fun type_of :: "json \<Rightarrow> json_type" where
  "type_of JNull = NullType"
| "type_of (JBool b) = BooleanType"
| "type_of (JInt i) = IntegerType"
| "type_of (JReal r) = RealType"
| "type_of (JString s) = StringType"
| "type_of (JArray a) = ArrayType"
| "type_of (JObject ob) = ObjectType"

text \<open>
  Modelled from the spec: \<^verbatim>\<open>isType<T>(v)\<close> followed by \<^verbatim>\<open>v.get_value<T>()\<close>, for the
  four instances of \<^verbatim>\<open>T\<close> the file reads: \<open>None\<close> is the failed type check.
\<close>

fun get_int :: "json \<Rightarrow> int option" where
  "get_int (JInt i) = Some i"
| "get_int _ = None"

fun get_str :: "json \<Rightarrow> string option" where
  "get_str (JString s) = Some s"
| "get_str _ = None"

fun get_array :: "json \<Rightarrow> json list option" where
  "get_array (JArray a) = Some a"
| "get_array _ = None"

fun get_object :: "json \<Rightarrow> json_object option" where
  "get_object (JObject ob) = Some ob"
| "get_object _ = None"

datatype exception = runtime_error json_type json_type

text \<open>
  Modelled from the spec: \<^verbatim>\<open>Value::get_obj()\<close> belongs to the JSON library. The
  specification asks that the finalizer of \<^verbatim>\<open>onCompleted\<close> run even when parsing
  throws; this accessor is where that happens: it checks the kind itself and throws when
  the value is not an object. The exception carries the kind found and the kind wanted.
  \<open>get_object\<close> above is the guarded form, \<^verbatim>\<open>isType<json::Object>\<close> tested first.
\<close>

fun get_obj :: "json \<Rightarrow> exception + json_object" where
  "get_obj (JObject ob) = Inr ob"
| "get_obj v = Inl (runtime_error (type_of v) ObjectType)"

datatype Error = ParamMissing | ParamTypeMismatch

text \<open>
  Modelled from the spec: \<^verbatim>\<open>json::readObject\<close>. The one-field form looks the name
  up, checks the type and only then writes through the pointer, so that a failed read
  leaves the caller's variable as it was. The forms with more fields read them from left
  to right and return the first error.
\<close>

definition readObject ::
  "(json \<Rightarrow> 'a option) \<Rightarrow> json_object \<Rightarrow> string \<Rightarrow> 'a \<Rightarrow> Error option \<times> 'a" where
  "readObject get object name pValue =
     (case map_of object name of
        None \<Rightarrow> (Some ParamMissing, pValue)
      | Some v \<Rightarrow>
          (case get v of
             None \<Rightarrow> (Some ParamTypeMismatch, pValue)
           | Some x \<Rightarrow> (None, x)))"

definition readObject2 ::
  "(json \<Rightarrow> 'a option) \<Rightarrow> (json \<Rightarrow> 'b option) \<Rightarrow> json_object \<Rightarrow>
   string \<Rightarrow> 'a \<Rightarrow> string \<Rightarrow> 'b \<Rightarrow> Error option \<times> 'a \<times> 'b" where
  "readObject2 get1 get2 object name1 pValue1 name2 pValue2 =
     (case readObject get1 object name1 pValue1 of
        (Some error, v1) \<Rightarrow> (Some error, v1, pValue2)
      | (None, v1) \<Rightarrow>
          (case readObject get2 object name2 pValue2 of
             (error, v2) \<Rightarrow> (error, v1, v2)))"

definition readObject3 ::
  "(json \<Rightarrow> 'a option) \<Rightarrow> (json \<Rightarrow> 'b option) \<Rightarrow> (json \<Rightarrow> 'c option) \<Rightarrow> json_object \<Rightarrow>
   string \<Rightarrow> 'a \<Rightarrow> string \<Rightarrow> 'b \<Rightarrow> string \<Rightarrow> 'c \<Rightarrow> Error option \<times> 'a \<times> 'b \<times> 'c" where
  "readObject3 get1 get2 get3 object name1 pValue1 name2 pValue2 name3 pValue3 =
     (case readObject2 get1 get2 object name1 pValue1 name2 pValue2 of
        (Some error, v1, v2) \<Rightarrow> (Some error, v1, v2, pValue3)
      | (None, v1, v2) \<Rightarrow>
          (case readObject get3 object name3 pValue3 of
             (error, v3) \<Rightarrow> (error, v1, v2, v3)))"

definition readObject4 ::
  "(json \<Rightarrow> 'a option) \<Rightarrow> (json \<Rightarrow> 'b option) \<Rightarrow> (json \<Rightarrow> 'c option) \<Rightarrow>
   (json \<Rightarrow> 'd option) \<Rightarrow> json_object \<Rightarrow>
   string \<Rightarrow> 'a \<Rightarrow> string \<Rightarrow> 'b \<Rightarrow> string \<Rightarrow> 'c \<Rightarrow> string \<Rightarrow> 'd \<Rightarrow>
   Error option \<times> 'a \<times> 'b \<times> 'c \<times> 'd" where
  "readObject4 get1 get2 get3 get4 object
       name1 pValue1 name2 pValue2 name3 pValue3 name4 pValue4 =
     (case readObject3 get1 get2 get3 object name1 pValue1 name2 pValue2 name3 pValue3 of
        (Some error, v1, v2, v3) \<Rightarrow> (Some error, v1, v2, v3, pValue4)
      | (None, v1, v2, v3) \<Rightarrow>
          (case readObject get4 object name4 pValue4 of
             (error, v4) \<Rightarrow> (error, v1, v2, v3, v4)))"

text \<open>
  Modelled from the spec: \<^verbatim>\<open>json::fillVectorString\<close> and \<^verbatim>\<open>json::fillVectorInt\<close>
  push the elements of the array onto the vector until one has the wrong type, and
  report whether the whole array was read.
\<close>

fun fillVector :: "(json \<Rightarrow> 'a option) \<Rightarrow> json list \<Rightarrow> 'a list \<Rightarrow> bool \<times> 'a list" where
  "fillVector get [] pVector = (True, pVector)"
| "fillVector get (v # array) pVector =
     (case get v of
        None \<Rightarrow> (False, pVector)
      | Some x \<Rightarrow> fillVector get array (pVector @ [x]))"

definition fillVectorString :: "json list \<Rightarrow> string list \<Rightarrow> bool \<times> string list" where
  "fillVectorString = fillVector get_str"

definition fillVectorInt :: "json list \<Rightarrow> int list \<Rightarrow> bool \<times> int list" where
  "fillVectorInt = fillVector get_int"

subsection \<open>The metadata records and the log\<close>

text \<open>
  Modelled from the spec: the three metadata structures declared in
  \<^verbatim>\<open>core/r_util/RSourceIndex.hpp\<close>, with the fields of section 3 of the
  specification. \<open>PackageInformation_default\<close> is the value of the expression
  \<^verbatim>\<open>PackageInformation()\<close>: the constructor receives no argument, so every member is
  empty.
\<close>

record FormalInformation =
  formal_name :: string
  isUsed :: bool
  hasDefaultValue :: bool
  missingnessHandled :: bool

record FunctionInformation =
  function_name :: string
  packageName :: string
  performsNse :: bool
  isPrimitive :: bool
  formals :: "FormalInformation list"

record PackageInformation =
  package :: string
  exports :: "string list"
  types :: "int list"
  functionInfo :: "string \<rightharpoonup> FunctionInformation"

definition PackageInformation_default :: PackageInformation where
  "PackageInformation_default =
     \<lparr>package = [], exports = [], types = [], functionInfo = Map.empty\<rparr>"

definition addFormal :: "FormalInformation \<Rightarrow> FunctionInformation \<Rightarrow> FunctionInformation" where
  "addFormal info pInfo = pInfo\<lparr>formals := formals pInfo @ [info]\<rparr>"

datatype log_entry =
    LOG_ERROR Error
  | LOG_ERROR_MESSAGE string
  | LOG_WARNING_MESSAGE string
  | logIncompatibleTypes json json_type

definition log_if_error :: "Error option \<Rightarrow> log_entry list \<Rightarrow> log_entry list" where
  "log_if_error error lg = (case error of None \<Rightarrow> lg | Some e \<Rightarrow> lg @ [LOG_ERROR e])"

subsection \<open>fillFormalInfo and fillFunctionInfo\<close>

text \<open>
  Both helpers write to the process-wide log; the log is threaded through as the last
  component. \<open>read_formal\<close> is the body of the loop of \<^verbatim>\<open>fillFormalInfo\<close> after
  the type check: the three locals start at 0, 1 and 1, are read from the fields, and
  are converted to \<^verbatim>\<open>bool\<close> by the setters. \<^verbatim>\<open>fillFormalInfo\<close> returns nothing:
  its \<^verbatim>\<open>return\<close> on a formal that is not an object leaves the loop with the formals
  added so far.
\<close>

definition read_formal :: "string \<Rightarrow> json_object \<Rightarrow> Error option \<times> FormalInformation" where
  "read_formal formalName fieldsJson =
     (case readObject3 get_int get_int get_int fieldsJson
             ''is_used'' 0 ''has_default'' 1 ''missingness_handled'' 1 of
        (error, isUsedInt, hasDefaultValueInt, isMissingnessHandledInt) \<Rightarrow>
          (error,
           \<lparr>formal_name = formalName,
            isUsed = (isUsedInt \<noteq> 0),
            hasDefaultValue = (hasDefaultValueInt \<noteq> 0),
            missingnessHandled = (isMissingnessHandledInt \<noteq> 0)\<rparr>))"

fun fillFormalInfo ::
  "json_object \<Rightarrow> FunctionInformation \<Rightarrow> log_entry list \<Rightarrow>
   FunctionInformation \<times> log_entry list" where
  "fillFormalInfo [] pInfo lg = (pInfo, lg)"
| "fillFormalInfo ((formalName, v) # formalInfoJson) pInfo lg =
     (case get_object v of
        None \<Rightarrow> (pInfo, lg @ [logIncompatibleTypes v ObjectType])
      | Some fieldsJson \<Rightarrow>
          (case read_formal formalName fieldsJson of
             (error, info) \<Rightarrow>
               fillFormalInfo formalInfoJson (addFormal info pInfo) (log_if_error error lg)))"

definition no_formal_information :: "string \<Rightarrow> string" where
  "no_formal_information functionName =
     ''No formal information for function '' @ [CHR 0x27] @ functionName @ [CHR 0x27]"

fun fillFunctionInfo ::
  "json_object \<Rightarrow> string \<Rightarrow> (string \<rightharpoonup> FunctionInformation) \<Rightarrow> log_entry list \<Rightarrow>
   bool \<times> (string \<rightharpoonup> FunctionInformation) \<times> log_entry list" where
  "fillFunctionInfo [] pkgName pInfo lg = (True, pInfo, lg)"
| "fillFunctionInfo ((functionName, v) # functionObjectJson) pkgName pInfo lg =
     (case get_object v of
        None \<Rightarrow>
          fillFunctionInfo functionObjectJson pkgName pInfo
            (lg @ [logIncompatibleTypes v ObjectType])
      | Some functionFieldsJson \<Rightarrow>
          (case readObject get_int functionFieldsJson ''performs_nse'' 0 of
             (error, performsNseInt) \<Rightarrow>
               (case map_of functionFieldsJson ''formal_info'' of
                  None \<Rightarrow>
                    (False, pInfo,
                     log_if_error error lg
                       @ [LOG_WARNING_MESSAGE (no_formal_information functionName)])
                | Some value \<Rightarrow>
                    (case get_object value of
                       None \<Rightarrow>
                         fillFunctionInfo functionObjectJson pkgName pInfo
                           (log_if_error error lg @ [logIncompatibleTypes value ObjectType])
                     | Some formalInfoJson \<Rightarrow>
                         (case fillFormalInfo formalInfoJson
                                 \<lparr>function_name = functionName, packageName = pkgName,
                                  performsNse = (performsNseInt \<noteq> 0), isPrimitive = False,
                                  formals = []\<rparr>
                                 (log_if_error error lg) of
                            (info, lg') \<Rightarrow>
                              fillFunctionInfo functionObjectJson pkgName
                                (pInfo(functionName \<mapsto> info)) lg')))))"

subsection \<open>The process-wide state\<close>

text \<open>
  \<open>s_isUpdating\<close> and \<open>s_pkgsToUpdate\<close> are the two static members (the
  trailing underscore of the C++ names is dropped). \<open>packageInformation\<close> is the
  table of the source index, \<open>stdOut\<close> the output buffered for the process whose
  completion is delivered (the member \<^verbatim>\<open>stdOut_\<close>), \<open>logged\<close> the log, and
  \<open>started\<close> the calls of \<^verbatim>\<open>start\<close> made so far, each with its command, working
  directory and options.
\<close>

datatype AsyncRProcessOptions = R_PROCESS_VANILLA | R_PROCESS_AUGMENTED

record state =
  s_isUpdating :: bool
  s_pkgsToUpdate :: "string list"
  packageInformation :: "string \<rightharpoonup> PackageInformation"
  stdOut :: string
  logged :: "log_entry list"
  started :: "(string \<times> string \<times> AsyncRProcessOptions set) list"

text \<open>
  Modelled from the spec: \<^verbatim>\<open>RSourceIndex::hasInformation\<close> and
  \<^verbatim>\<open>RSourceIndex::addPackageInformation\<close> are declared in
  \<^verbatim>\<open>core/r_util/RSourceIndex.hpp\<close>. The first is the existence check of an entry,
  the second writes or overwrites the entry of a package name with the record given.
\<close>

definition hasInformation :: "state \<Rightarrow> string \<Rightarrow> bool" where
  "hasInformation st pkg = (packageInformation st pkg \<noteq> None)"

definition addPackageInformation :: "string \<Rightarrow> PackageInformation \<Rightarrow> state \<Rightarrow> state" where
  "addPackageInformation pkg info st =
     st\<lparr>packageInformation := (packageInformation st)(pkg \<mapsto> info)\<rparr>"

text \<open>
  The logging macros and \<^verbatim>\<open>logIncompatibleTypes\<close> append to the log; an entry
  records which of them was called and with what.
\<close>

definition write_log :: "log_entry \<Rightarrow> state \<Rightarrow> state" where
  "write_log e st = st\<lparr>logged := logged st @ [e]\<rparr>"

subsection \<open>The destructor of CompleteUpdateOnExit\<close>

fun give_empty :: "string list \<Rightarrow> state \<Rightarrow> state" where
  "give_empty [] st = st"
| "give_empty (pkg # pkgs) st =
     give_empty pkgs
       (if \<not> hasInformation st pkg
        then addPackageInformation pkg PackageInformation_default st
        else st)"

definition CompleteUpdateOnExit_dtor :: "state \<Rightarrow> state" where
  "CompleteUpdateOnExit_dtor st =
     (give_empty (s_pkgsToUpdate st) st)\<lparr>s_pkgsToUpdate := [], s_isUpdating := False\<rparr>"

subsection \<open>onCompleted\<close>

text \<open>
  \<^verbatim>\<open>boost::split\<close> with \<^verbatim>\<open>is_any_of("\n")\<close> cuts at every newline and keeps empty
  pieces, so a string with \<open>k\<close> newlines gives \<open>k + 1\<close> pieces.
\<close>

fun split :: "string \<Rightarrow> string list" where
  "split [] = [[]]"
| "split (c # cs) =
     (if c = CHR 0x0A then [] # split cs
      else (case split cs of
              [] \<Rightarrow> [[c]]
            | piece # pieces \<Rightarrow> (c # piece) # pieces))"

definition failed_to_parse :: "string \<Rightarrow> string" where
  "failed_to_parse line =
     ''Failed to parse JSON: '' @ [CHR 0x27]
       @ (if length line > 60 then take 60 line @ ''...'' else line)
       @ [CHR 0x27]"

text \<open>
  The structural read of one decoded record and the construction of \<open>pkgInfo\<close>
  (the part of the loop body from \<^verbatim>\<open>json::readObject\<close> to the third
  \<^verbatim>\<open>LOG_ERROR_MESSAGE\<close>). \<open>None\<close> is the \<^verbatim>\<open>continue\<close> after a failed read.
\<close>

definition read_package ::
  "json_object \<Rightarrow> log_entry list \<Rightarrow> PackageInformation option \<times> log_entry list" where
  "read_package object lg =
     (case readObject4 get_str get_array get_array get_object object
             ''package'' (package PackageInformation_default)
             ''exports'' [] ''types'' [] ''function_info'' [] of
        (Some error, pkg, exportsJson, typesJson, functionInfoJson) \<Rightarrow>
          (None, lg @ [LOG_ERROR error])
      | (None, pkg, exportsJson, typesJson, functionInfoJson) \<Rightarrow>
          (case fillVectorString exportsJson (exports PackageInformation_default) of
             (ok1, pkgExports) \<Rightarrow>
          (case fillVectorInt typesJson (types PackageInformation_default) of
             (ok2, pkgTypes) \<Rightarrow>
          (case fillFunctionInfo functionInfoJson pkg
                  (functionInfo PackageInformation_default)
                  (lg
                     @ (if ok1 then []
                        else [LOG_ERROR_MESSAGE
                                ''Failed to read JSON 'objects' array to vector''])
                     @ (if ok2 then []
                        else [LOG_ERROR_MESSAGE
                                ''Failed to read JSON 'types' array to vector''])) of
             (ok3, pkgFunctionInfo, lg') \<Rightarrow>
               (Some \<lparr>package = pkg, exports = pkgExports, types = pkgTypes,
                       functionInfo = pkgFunctionInfo\<rparr>,
                lg' @ (if ok3 then []
                       else [LOG_ERROR_MESSAGE
                               ''Failed to read JSON 'functions' object to map'']))))))"

text \<open>
  The \<^verbatim>\<open>for\<close> loop over the pieces. \<open>parse\<close> stands for \<^verbatim>\<open>json::parse\<close>,
  which belongs to the JSON library and is a parameter here: \<open>None\<close> is its result
  \<^verbatim>\<open>false\<close>. The result \<open>Some e\<close> in the first component is the exception
  leaving the loop, with the state reached when it was thrown.
\<close>

fun process_lines ::
  "(string \<Rightarrow> json option) \<Rightarrow> string list \<Rightarrow> state \<Rightarrow> exception option \<times> state" where
  "process_lines parse [] st = (None, st)"
| "process_lines parse (line # splat) st =
     (if line = [] then process_lines parse splat st
      else
        (case parse line of
           None \<Rightarrow>
             process_lines parse splat
               (write_log (LOG_ERROR_MESSAGE (failed_to_parse line)) st)
         | Some value \<Rightarrow>
             (case get_obj value of
                Inl e \<Rightarrow> (Some e, st)
              | Inr object \<Rightarrow>
                  (case read_package object (logged st) of
                     (None, lg) \<Rightarrow> process_lines parse splat (st\<lparr>logged := lg\<rparr>)
                   | (Some pkgInfo, lg) \<Rightarrow>
                       process_lines parse splat
                         (addPackageInformation (package pkgInfo) pkgInfo
                            (st\<lparr>logged := lg\<rparr>))))))"

text \<open>
  \<^verbatim>\<open>onCompleted\<close>: the guard object is constructed first, so its destructor runs on
  the early return, at the end of the loop, and when the exception unwinds the frame.
  \<open>exitStatus\<close> is the parameter of the source function.
\<close>

definition onCompleted_body ::
  "(string \<Rightarrow> json option) \<Rightarrow> int \<Rightarrow> state \<Rightarrow> exception option \<times> state" where
  "onCompleted_body parse exitStatus st =
     (let out = stdOut st; st0 = st\<lparr>stdOut := []\<rparr>
      in if out = [] \<or> out = [CHR 0x0A] then (None, st0)
         else process_lines parse (split out) st0)"

definition onCompleted ::
  "(string \<Rightarrow> json option) \<Rightarrow> int \<Rightarrow> state \<Rightarrow> exception option \<times> state" where
  "onCompleted parse exitStatus st =
     (case onCompleted_body parse exitStatus st of
        (thrown, st') \<Rightarrow> (thrown, CompleteUpdateOnExit_dtor st'))"

subsection \<open>update\<close>

text \<open>
  \<open>unindexed\<close> is what \<^verbatim>\<open>RSourceIndex::getAllUnindexedPackages()\<close> returns at this
  call; the query belongs to the index and is a parameter. The debug block is compiled
  out (\<^verbatim>\<open>RSTUDIO_ENABLE_DEBUG_MACROS\<close> is not defined). The working directory passed
  to \<^verbatim>\<open>start\<close> is the empty \<^verbatim>\<open>FilePath()\<close>. \<open>finalCmd\<close> is the text written to
  the string stream; the source reaches \<^verbatim>\<open>pkgs[0]\<close> only after the test
  \<^verbatim>\<open>pkgs.empty()\<close> has failed, and so does \<open>update\<close> here.
\<close>

definition finalCmd :: "string list \<Rightarrow> string" where
  "finalCmd pkgs =
     ''.rs.getPackageInformation(''
       @ [CHR 0x27] @ hd pkgs @ [CHR 0x27]
       @ concat (map (\<lambda>p. '','' @ [CHR 0x27] @ p @ [CHR 0x27]) (tl pkgs))
       @ '');''"

definition update :: "string list \<Rightarrow> state \<Rightarrow> state" where
  "update unindexed st =
     (if s_isUpdating st then st
      else
        (let st1 = st\<lparr>s_isUpdating := True, s_pkgsToUpdate := unindexed\<rparr>
         in if s_pkgsToUpdate st1 = [] then st1\<lparr>s_isUpdating := False\<rparr>
            else st1\<lparr>started := started st1
                   @ [(finalCmd (s_pkgsToUpdate st1), [],
                       {R_PROCESS_VANILLA, R_PROCESS_AUGMENTED})]\<rparr>))"

subsection \<open>The command as the specification words it\<close>

text \<open>
  The specification describes the command as a call of the entry point whose arguments
  are the pending names, each in single quotes, separated by commas, closed by
  \<^verbatim>\<open>);\<close>. This definition follows those words; \<open>finalCmd\<close> above follows the code.
\<close>

definition single_quoted :: "string \<Rightarrow> string" where
  "single_quoted p = [CHR 0x27] @ p @ [CHR 0x27]"

fun comma_separated :: "string list \<Rightarrow> string" where
  "comma_separated [] = []"
| "comma_separated [a] = a"
| "comma_separated (a # b # bs) = a @ '','' @ comma_separated (b # bs)"

definition command_text :: "string list \<Rightarrow> string" where
  "command_text pkgs =
     ''.rs.getPackageInformation('' @ comma_separated (map single_quoted pkgs) @ '');''"

subsection \<open>Notions used to state the properties\<close>

text \<open>
  A field of a formal is unreadable when it is missing or is not an integer: these are
  the two ways in which \<^verbatim>\<open>json::readObject\<close> fails on it. \<open>default_policy\<close> is
  the asymmetric default of the three flags, \<open>decodes\<close> relates a member of a
  \<^verbatim>\<open>formal_info\<close> object to the \<^verbatim>\<open>FormalInformation\<close> made from it, and
  \<open>is_object_member\<close> holds of the members whose value is an object.
\<close>

definition unreadable :: "json_object \<Rightarrow> string \<Rightarrow> bool" where
  "unreadable fieldsJson name =
     (case map_of fieldsJson name of None \<Rightarrow> True | Some v \<Rightarrow> get_int v = None)"

definition default_policy :: "json_object \<Rightarrow> FormalInformation \<Rightarrow> bool" where
  "default_policy fieldsJson info =
     ((unreadable fieldsJson ''is_used'' \<longrightarrow> \<not> isUsed info)
      \<and> (unreadable fieldsJson ''has_default'' \<longrightarrow> hasDefaultValue info)
      \<and> (unreadable fieldsJson ''missingness_handled'' \<longrightarrow> missingnessHandled info))"

definition decodes :: "string \<times> json \<Rightarrow> FormalInformation \<Rightarrow> bool" where
  "decodes member info =
     (formal_name info = fst member
      \<and> (case get_object (snd member) of
           None \<Rightarrow> False
         | Some fieldsJson \<Rightarrow> default_policy fieldsJson info))"

definition is_object_member :: "string \<times> json \<Rightarrow> bool" where
  "is_object_member member = (get_object (snd member) \<noteq> None)"

text \<open>
  A member of a \<^verbatim>\<open>function_info\<close> object lacks its formal information when its value
  is an object without the key \<^verbatim>\<open>formal_info\<close>.
\<close>

definition lacks_formal_info :: "string \<times> json \<Rightarrow> bool" where
  "lacks_formal_info member =
     (case get_object (snd member) of
        None \<Rightarrow> False
      | Some functionFieldsJson \<Rightarrow> map_of functionFieldsJson ''formal_info'' = None)"

text \<open>
  A line is valid when it is not empty, parses to an object and passes the structural
  read; \<open>line_entry\<close> is then the record that the loop writes to the index for it.
\<close>

definition line_entry :: "(string \<Rightarrow> json option) \<Rightarrow> string \<Rightarrow> PackageInformation option" where
  "line_entry parse line =
     (if line = [] then None
      else (case parse line of
              None \<Rightarrow> None
            | Some value \<Rightarrow>
                (case get_object value of
                   None \<Rightarrow> None
                 | Some object \<Rightarrow> fst (read_package object []))))"

subsection \<open>Concrete inputs\<close>

text \<open>
  States, JSON values and output lines on which the properties are evaluated.
  \<open>ex_parse\<close> is a parser that knows three lines: it gives for each the value that
  the line denotes (objects with their members in key order) and rejects every other
  line, among them the cut-off line \<open>line_cut\<close>.
\<close>

definition idle :: state where
  "idle = \<lparr>s_isUpdating = False, s_pkgsToUpdate = [], packageInformation = Map.empty,
            stdOut = [], logged = [], started = []\<rparr>"

definition waiting_xy :: state where
  "waiting_xy = idle\<lparr>s_isUpdating := True, s_pkgsToUpdate := [''x'', ''y'']\<rparr>"

definition ex_formal_info :: json_object where
  "ex_formal_info =
     [(''a'', JObject []),
      (''b'', JObject [(''has_default'', JInt 0), (''is_used'', JInt 1),
                       (''missingness_handled'', JInt 0)]),
      (''c'', JObject [(''has_default'', JString ''no''), (''is_used'', JInt 1)])]"

definition ex_function :: FunctionInformation where
  "ex_function = \<lparr>function_name = ''f'', packageName = ''foo'', performsNse = False,
                   isPrimitive = False, formals = []\<rparr>"

definition ex_function_info :: json_object where
  "ex_function_info =
     [(''f'', JObject
         [(''formal_info'', JObject
             [(''a'', JObject [(''is_used'', JInt 1)]),
              (''b'', JInt 3),
              (''c'', JObject [])]),
          (''performs_nse'', JInt 1)]),
      (''g'', JObject [(''formal_info'', JObject []), (''performs_nse'', JInt 0)])]"

definition ex_function_info_lacking :: json_object where
  "ex_function_info_lacking =
     [(''f'', JObject [(''formal_info'', JObject []), (''performs_nse'', JInt 1)]),
      (''g'', JObject [(''performs_nse'', JInt 0)]),
      (''h'', JObject [(''formal_info'', JObject []), (''performs_nse'', JInt 0)])]"

definition ex_function_info_mixed :: json_object where
  "ex_function_info_mixed =
     [(''f'', JObject
         [(''formal_info'', JObject
             [(''a'', JObject [(''is_used'', JInt 1)]),
              (''b'', JInt 3),
              (''c'', JObject [])]),
          (''performs_nse'', JInt 1)]),
      (''g'', JObject [(''performs_nse'', JInt 0)])]"

definition line_foo :: string where
  \<open>line_foo = ''{"package":"foo","exports":["a","b"],"types":[1,2],"function_info":{}}''\<close>

definition json_foo :: json where
  "json_foo = JObject
     [(''exports'', JArray [JString ''a'', JString ''b'']),
      (''function_info'', JObject []),
      (''package'', JString ''foo''),
      (''types'', JArray [JInt 1, JInt 2])]"

definition line_bar :: string where
  \<open>line_bar = ''{"package":"bar","exports":["g"],"types":[6],"function_info":{"f":{"performs_nse":1,"formal_info":{}},"g":{"performs_nse":0},"h":{"performs_nse":0,"formal_info":{}}}}''\<close>

definition json_bar :: json where
  "json_bar = JObject
     [(''exports'', JArray [JString ''g'']),
      (''function_info'', JObject ex_function_info_lacking),
      (''package'', JString ''bar''),
      (''types'', JArray [JInt 6])]"

definition line_cut :: string where
  \<open>line_cut = ''{"package":"baz","exports":["a","b","c","d","e"],"types":[1,2,3,4,5],"function_''\<close>

definition line_array :: string where
  "line_array = ''[1,2]''"

definition ex_parse :: "string \<Rightarrow> json option" where
  "ex_parse line =
     (if line = line_foo then Some json_foo
      else if line = line_bar then Some json_bar
      else if line = line_array then Some (JArray [JInt 1, JInt 2])
      else None)"

definition waiting_cut_foo :: state where
  "waiting_cut_foo =
     idle\<lparr>s_isUpdating := True, s_pkgsToUpdate := [''x'', ''foo''],
          stdOut := line_cut @ [CHR 0x0A] @ line_foo\<rparr>"

definition waiting_array_foo :: state where
  "waiting_array_foo =
     idle\<lparr>s_isUpdating := True, s_pkgsToUpdate := [''foo''],
          stdOut := line_array @ [CHR 0x0A] @ line_foo\<rparr>"

definition waiting_foo_cut_bar :: state where
  "waiting_foo_cut_bar =
     idle\<lparr>s_isUpdating := True, s_pkgsToUpdate := [''foo'', ''bar''],
          stdOut := line_foo @ [CHR 0x0A] @ line_cut @ [CHR 0x0A] @ line_bar\<rparr>"

definition second_cycle :: state where
  "second_cycle =
     (snd (onCompleted ex_parse 0 waiting_foo_cut_bar))
       \<lparr>s_isUpdating := True, s_pkgsToUpdate := [''z''],
        stdOut := stdOut waiting_foo_cut_bar\<rparr>"

section \<open>Properties\<close>

subsection \<open>update\<close>

text \<open>
  C2. Whenever \<open>s_isUpdating\<close> is set, \<open>update\<close> returns the state it was given:
  the pending snapshot, the flag and the index are unchanged and no process is started,
  whatever the index query would have returned.
\<close>

theorem update_while_updating_is_noop:
  assumes "s_isUpdating st"
  shows "update unindexed st = st
           \<and> s_pkgsToUpdate (update unindexed st) = s_pkgsToUpdate st
           \<and> s_isUpdating (update unindexed st) = s_isUpdating st
           \<and> packageInformation (update unindexed st) = packageInformation st
           \<and> started (update unindexed st) = started st"
  using assms by (simp add: update_def)

theorem update_while_updating_is_noop_witness:
  "s_isUpdating waiting_xy \<and> update [''z''] waiting_xy = waiting_xy
     \<and> s_pkgsToUpdate (update [''z''] waiting_xy) = [''x'', ''y'']
     \<and> started (update [''z''] waiting_xy) = []"
proof -
  have flag: "s_isUpdating waiting_xy"
    by (simp add: waiting_xy_def idle_def)
  from update_while_updating_is_noop [OF flag, of "[''z'']"]
  show ?thesis
    using flag by (simp add: waiting_xy_def idle_def)
qed

lemma finalCmd_Cons:
  "finalCmd (p # ps) =
     ''.rs.getPackageInformation('' @ single_quoted p
       @ concat (map (\<lambda>q. '','' @ single_quoted q) ps) @ '');''"
  by (simp add: finalCmd_def single_quoted_def)

lemma comma_separated_Cons:
  "comma_separated (a # as) = a @ concat (map (\<lambda>b. '','' @ b) as)"
  by (induction as arbitrary: a) simp_all

lemma finalCmd_command_text: "pkgs \<noteq> [] \<Longrightarrow> finalCmd pkgs = command_text pkgs"
proof (cases pkgs)
  case Nil
  assume "pkgs \<noteq> []"
  with Nil show ?thesis by simp
next
  case (Cons p ps)
  have "concat (map (\<lambda>q. '','' @ single_quoted q) ps)
          = concat (map (\<lambda>b. '','' @ b) (map single_quoted ps))"
    by (simp add: comp_def)
  with Cons show ?thesis
    by (simp only: finalCmd_Cons command_text_def list.map comma_separated_Cons append_assoc)
qed

text \<open>
  C7. With \<open>s_isUpdating\<close> clear and a non-empty answer \<open>pkgs\<close> of the index query,
  \<open>update\<close> sets the flag, takes \<open>pkgs\<close> as the pending snapshot and starts exactly
  one process, whose command is the entry point applied to the names of \<open>pkgs\<close> in
  the same order, each in single quotes, separated by commas and closed by \<^verbatim>\<open>);\<close>.
\<close>

theorem update_starts_command:
  assumes "\<not> s_isUpdating st" and "pkgs \<noteq> []"
  shows "update pkgs st =
           st\<lparr>s_isUpdating := True, s_pkgsToUpdate := pkgs,
              started := started st
                @ [(command_text pkgs, [], {R_PROCESS_VANILLA, R_PROCESS_AUGMENTED})]\<rparr>"
  using assms by (simp add: update_def finalCmd_command_text)

theorem update_starts_command_witness:
  "\<not> s_isUpdating idle \<and> [''pkgA'', ''pkgB'', ''pkgC''] \<noteq> []
     \<and> map fst (started (update [''pkgA'', ''pkgB'', ''pkgC''] idle))
         = [''.rs.getPackageInformation('pkgA','pkgB','pkgC');'']"
proof -
  have flag: "\<not> s_isUpdating idle"
    by (simp add: idle_def)
  have ne: "[''pkgA'', ''pkgB'', ''pkgC''] \<noteq> []"
    by simp
  from update_starts_command [OF flag ne]
  show ?thesis
    using flag by (simp add: command_text_def single_quoted_def idle_def)
qed

subsection \<open>fillFormalInfo\<close>

lemma read_formal_name: "formal_name (snd (read_formal formalName fieldsJson)) = formalName"
  by (simp add: read_formal_def split: prod.splits)

lemma read_formal_policy: "default_policy fieldsJson (snd (read_formal formalName fieldsJson))"
  unfolding default_policy_def read_formal_def readObject3_def readObject2_def
  by (auto simp: readObject_def unreadable_def split: prod.splits option.splits)

lemma read_formal_decodes:
  "decodes (formalName, JObject fieldsJson) (snd (read_formal formalName fieldsJson))"
  by (simp add: decodes_def read_formal_name read_formal_policy)

lemma fillFormalInfo_formals:
  "\<exists>decoded. formals (fst (fillFormalInfo formalInfoJson pInfo lg)) = formals pInfo @ decoded
      \<and> list_all2 decodes (takeWhile is_object_member formalInfoJson) decoded"
proof (induction formalInfoJson arbitrary: pInfo lg)
  case Nil
  show ?case by simp
next
  case (Cons member formalInfoJson)
  obtain formalName v where member: "member = (formalName, v)"
    by (cases member)
  show ?case
  proof (cases "get_object v")
    case None
    with member show ?thesis
      by (simp add: is_object_member_def)
  next
    case (Some fieldsJson)
    obtain error info where rf: "read_formal formalName fieldsJson = (error, info)"
      by (cases "read_formal formalName fieldsJson")
    from Cons.IH [of "addFormal info pInfo" "log_if_error error lg"]
    obtain decoded where
      d: "formals (fst (fillFormalInfo formalInfoJson (addFormal info pInfo)
                          (log_if_error error lg)))
            = formals (addFormal info pInfo) @ decoded"
      and l: "list_all2 decodes (takeWhile is_object_member formalInfoJson) decoded"
      by blast
    have v: "v = JObject fieldsJson"
      using Some by (cases v) simp_all
    have dec: "decodes member info"
      using read_formal_decodes [of formalName fieldsJson] rf member v by simp
    have obj: "is_object_member member"
      using member Some by (simp add: is_object_member_def)
    from d l dec obj member Some rf show ?thesis
      by (simp add: addFormal_def)
  qed
qed

text \<open>
  C5. Every formal that \<open>fillFormalInfo\<close> decodes follows the asymmetric default
  policy. The formals it adds are, in order, those made from the members up to the first
  one that is not an object; each carries the name of its member, \<open>isUsed\<close> is false
  when \<^verbatim>\<open>is_used\<close> is missing or unreadable, \<open>hasDefaultValue\<close> is true when
  \<^verbatim>\<open>has_default\<close> is missing or unreadable, and \<open>missingnessHandled\<close> is true when
  \<^verbatim>\<open>missingness_handled\<close> is missing or unreadable.
\<close>

theorem fillFormalInfo_default_policy:
  "\<exists>decoded.
      formals (fst (fillFormalInfo formalInfoJson pInfo lg)) = formals pInfo @ decoded
      \<and> list_all2
          (\<lambda>member info.
             formal_name info = fst member
             \<and> (\<exists>fieldsJson. snd member = JObject fieldsJson
                  \<and> (unreadable fieldsJson ''is_used'' \<longrightarrow> \<not> isUsed info)
                  \<and> (unreadable fieldsJson ''has_default'' \<longrightarrow> hasDefaultValue info)
                  \<and> (unreadable fieldsJson ''missingness_handled''
                        \<longrightarrow> missingnessHandled info)))
          (takeWhile (\<lambda>member. type_of (snd member) = ObjectType) formalInfoJson)
          decoded"
proof -
  from fillFormalInfo_formals [of formalInfoJson pInfo lg] obtain decoded where
    added: "formals (fst (fillFormalInfo formalInfoJson pInfo lg)) = formals pInfo @ decoded"
    and each: "list_all2 decodes (takeWhile is_object_member formalInfoJson) decoded"
    by blast
  have same_prefix: "is_object_member = (\<lambda>member. type_of (snd member) = ObjectType)"
  proof
    fix member :: "string \<times> json"
    show "is_object_member member = (type_of (snd member) = ObjectType)"
      by (cases "snd member") (simp_all add: is_object_member_def)
  qed
  have unfolded: "decodes member info \<Longrightarrow>
      formal_name info = fst member
      \<and> (\<exists>fieldsJson. snd member = JObject fieldsJson
           \<and> (unreadable fieldsJson ''is_used'' \<longrightarrow> \<not> isUsed info)
           \<and> (unreadable fieldsJson ''has_default'' \<longrightarrow> hasDefaultValue info)
           \<and> (unreadable fieldsJson ''missingness_handled'' \<longrightarrow> missingnessHandled info))"
    for member info
    by (cases "snd member") (simp_all add: decodes_def default_policy_def)
  from each have "list_all2
          (\<lambda>member info.
             formal_name info = fst member
             \<and> (\<exists>fieldsJson. snd member = JObject fieldsJson
                  \<and> (unreadable fieldsJson ''is_used'' \<longrightarrow> \<not> isUsed info)
                  \<and> (unreadable fieldsJson ''has_default'' \<longrightarrow> hasDefaultValue info)
                  \<and> (unreadable fieldsJson ''missingness_handled''
                        \<longrightarrow> missingnessHandled info)))
          (takeWhile (\<lambda>member. type_of (snd member) = ObjectType) formalInfoJson)
          decoded"
    unfolding same_prefix by (rule list_all2_mono) (rule unfolded)
  with added show ?thesis
    by blast
qed

theorem fillFormalInfo_default_policy_witness:
  "unreadable [] ''is_used'' \<and> unreadable [] ''has_default''
     \<and> unreadable [] ''missingness_handled''
     \<and> unreadable [(''has_default'', JString ''no''), (''is_used'', JInt 1)] ''has_default''
     \<and> unreadable [(''has_default'', JString ''no''), (''is_used'', JInt 1)]
           ''missingness_handled''
     \<and> takeWhile (\<lambda>member. type_of (snd member) = ObjectType) ex_formal_info
         = ex_formal_info
     \<and> formals (fst (fillFormalInfo ex_formal_info ex_function [])) =
         [\<lparr>formal_name = ''a'', isUsed = False, hasDefaultValue = True,
            missingnessHandled = True\<rparr>,
          \<lparr>formal_name = ''b'', isUsed = True, hasDefaultValue = False,
            missingnessHandled = False\<rparr>,
          \<lparr>formal_name = ''c'', isUsed = True, hasDefaultValue = True,
            missingnessHandled = True\<rparr>]"
  using fillFormalInfo_default_policy [of ex_formal_info ex_function "[]"]
  by (simp add: ex_formal_info_def ex_function_def unreadable_def
        read_formal_def readObject3_def readObject2_def readObject_def addFormal_def
        log_if_error_def)

subsection \<open>fillFunctionInfo\<close>

lemma fillFormalInfo_append:
  "list_all is_object_member pre \<Longrightarrow>
   fillFormalInfo (pre @ rest) pInfo lg =
     fillFormalInfo rest (fst (fillFormalInfo pre pInfo lg)) (snd (fillFormalInfo pre pInfo lg))"
proof (induction pre arbitrary: pInfo lg)
  case Nil
  show ?case by simp
next
  case (Cons member pre)
  obtain formalName v where member: "member = (formalName, v)"
    by (cases member)
  from Cons.prems have here: "is_object_member member"
    and later: "list_all is_object_member pre"
    by simp_all
  from here obtain fieldsJson where fields: "get_object v = Some fieldsJson"
    by (auto simp: member is_object_member_def)
  obtain error info where rf: "read_formal formalName fieldsJson = (error, info)"
    by (cases "read_formal formalName fieldsJson")
  show ?case
    using Cons.IH [OF later, of "addFormal info pInfo" "log_if_error error lg"] member fields rf
    by simp
qed

lemma takeWhile_list_all: "list_all P xs \<Longrightarrow> takeWhile P xs = xs"
  by (induction xs) simp_all

lemma fillFormalInfo_all_objects:
  assumes "list_all is_object_member pre"
  shows "list_all2 decodes pre
           (drop (length (formals pInfo)) (formals (fst (fillFormalInfo pre pInfo lg))))"
proof -
  from fillFormalInfo_formals [of pre pInfo lg] obtain decoded where
    "formals (fst (fillFormalInfo pre pInfo lg)) = formals pInfo @ decoded"
    and "list_all2 decodes (takeWhile is_object_member pre) decoded"
    by blast
  with assms show ?thesis
    by (simp add: takeWhile_list_all)
qed

lemma fillFunctionInfo_Cons_ok:
  assumes "\<not> lacks_formal_info member"
  shows "\<exists>pInfo' lg'. \<forall>js. fillFunctionInfo (member # js) pkgName pInfo lg
           = fillFunctionInfo js pkgName pInfo' lg'"
proof -
  obtain functionName v where member: "member = (functionName, v)"
    by (cases member)
  show ?thesis
  proof (cases "get_object v")
    case None
    with member have
      "\<forall>js. fillFunctionInfo (member # js) pkgName pInfo lg
         = fillFunctionInfo js pkgName pInfo (lg @ [logIncompatibleTypes v ObjectType])"
      by simp
    then show ?thesis by blast
  next
    case (Some functionFieldsJson)
    note fields = Some
    obtain error performsNseInt where
      ro: "readObject get_int functionFieldsJson ''performs_nse'' 0 = (error, performsNseInt)"
      by (cases "readObject get_int functionFieldsJson ''performs_nse'' 0")
    from assms member fields obtain val where
      formal_info: "map_of functionFieldsJson ''formal_info'' = Some val"
      by (auto simp: lacks_formal_info_def)
    show ?thesis
    proof (cases "get_object val")
      case None
      with member fields ro formal_info have
        "\<forall>js. fillFunctionInfo (member # js) pkgName pInfo lg
           = fillFunctionInfo js pkgName pInfo
               (log_if_error error lg @ [logIncompatibleTypes val ObjectType])"
        by simp
      then show ?thesis by blast
    next
      case (Some formalInfoJson)
      let ?fresh = "\<lparr>function_name = functionName, packageName = pkgName,
                      performsNse = (performsNseInt \<noteq> 0), isPrimitive = False,
                      formals = []\<rparr>"
      obtain info lg' where
        "fillFormalInfo formalInfoJson ?fresh (log_if_error error lg) = (info, lg')"
        by (cases "fillFormalInfo formalInfoJson ?fresh (log_if_error error lg)")
      with member fields ro formal_info Some have
        "\<forall>js. fillFunctionInfo (member # js) pkgName pInfo lg
           = fillFunctionInfo js pkgName (pInfo(functionName \<mapsto> info)) lg'"
        by simp
      then show ?thesis by blast
    qed
  qed
qed

lemma fillFunctionInfo_success:
  "fst (fillFunctionInfo js pkgName pInfo lg) = (\<not> list_ex lacks_formal_info js)"
proof (induction js arbitrary: pInfo lg)
  case Nil
  show ?case by simp
next
  case (Cons member js)
  show ?case
  proof (cases "lacks_formal_info member")
    case True
    then show ?thesis
      by (cases member) (auto simp: lacks_formal_info_def split: option.splits prod.splits)
  next
    case False
    from fillFunctionInfo_Cons_ok [OF False]
    obtain pInfo' lg' where
      "fillFunctionInfo (member # js) pkgName pInfo lg = fillFunctionInfo js pkgName pInfo' lg'"
      by blast
    with Cons.IH [of pInfo' lg'] False show ?thesis
      by simp
  qed
qed

lemma fillFunctionInfo_append:
  "\<not> list_ex lacks_formal_info pre \<Longrightarrow>
   fillFunctionInfo (pre @ rest) pkgName pInfo lg =
     fillFunctionInfo rest pkgName
       (fst (snd (fillFunctionInfo pre pkgName pInfo lg)))
       (snd (snd (fillFunctionInfo pre pkgName pInfo lg)))"
proof (induction pre arbitrary: pInfo lg)
  case Nil
  show ?case by simp
next
  case (Cons member pre)
  from Cons.prems have here: "\<not> lacks_formal_info member"
    and later: "\<not> list_ex lacks_formal_info pre"
    by simp_all
  from fillFunctionInfo_Cons_ok [OF here]
  obtain pInfo' lg' where
    step: "\<And>js. fillFunctionInfo (member # js) pkgName pInfo lg
             = fillFunctionInfo js pkgName pInfo' lg'"
    by blast
  have "fillFunctionInfo ((member # pre) @ rest) pkgName pInfo lg
          = fillFunctionInfo (pre @ rest) pkgName pInfo' lg'"
    using step [of "pre @ rest"] by simp
  also have "\<dots> = fillFunctionInfo rest pkgName
                     (fst (snd (fillFunctionInfo pre pkgName pInfo' lg')))
                     (snd (snd (fillFunctionInfo pre pkgName pInfo' lg')))"
    by (rule Cons.IH [OF later])
  finally show ?case
    by (simp only: step [of pre])
qed

lemma fillFunctionInfo_lacking:
  "map_of functionFieldsJson ''formal_info'' = None \<Longrightarrow>
   fillFunctionInfo ((functionName, JObject functionFieldsJson) # post) pkgName pInfo lg =
     (False, pInfo,
      log_if_error (fst (readObject get_int functionFieldsJson ''performs_nse'' 0)) lg
        @ [LOG_WARNING_MESSAGE (no_formal_information functionName)])"
  by (simp split: prod.splits)

lemma fillFormalInfo_info_indep:
  "fst (fillFormalInfo js pInfo lg) = fst (fillFormalInfo js pInfo lg2)"
proof (induction js arbitrary: pInfo lg lg2)
  case Nil
  show ?case by simp
next
  case (Cons member js)
  obtain formalName v where member: "member = (formalName, v)"
    by (cases member)
  show ?case
  proof (cases "get_object v")
    case None
    with member show ?thesis by simp
  next
    case (Some fieldsJson)
    obtain error info where rf: "read_formal formalName fieldsJson = (error, info)"
      by (cases "read_formal formalName fieldsJson")
    from Cons.IH [of "addFormal info pInfo" "log_if_error error lg" "log_if_error error lg2"]
    show ?thesis
      using member Some rf by simp
  qed
qed

lemma fillFunctionInfo_map_indep:
  "fst (snd (fillFunctionInfo js pkgName pInfo lg))
     = fst (snd (fillFunctionInfo js pkgName pInfo lg2))"
proof (induction js arbitrary: pInfo lg lg2)
  case Nil
  show ?case by simp
next
  case (Cons member js)
  obtain functionName v where member: "member = (functionName, v)"
    by (cases member)
  show ?case
  proof (cases "get_object v")
    case None
    with member Cons.IH show ?thesis by simp
  next
    case (Some functionFieldsJson)
    note fields = Some
    obtain error performsNseInt where
      ro: "readObject get_int functionFieldsJson ''performs_nse'' 0 = (error, performsNseInt)"
      by (cases "readObject get_int functionFieldsJson ''performs_nse'' 0")
    show ?thesis
    proof (cases "map_of functionFieldsJson ''formal_info''")
      case None
      with member fields ro show ?thesis by simp
    next
      case (Some val)
      note formal_info = Some
      show ?thesis
      proof (cases "get_object val")
        case None
        with member fields ro formal_info Cons.IH show ?thesis by simp
      next
        case (Some formalInfoJson)
        let ?fresh = "\<lparr>function_name = functionName, packageName = pkgName,
                        performsNse = (performsNseInt \<noteq> 0), isPrimitive = False,
                        formals = []\<rparr>"
        obtain info lg' where
          f1: "fillFormalInfo formalInfoJson ?fresh (log_if_error error lg) = (info, lg')"
          by (cases "fillFormalInfo formalInfoJson ?fresh (log_if_error error lg)")
        obtain info2 lg2' where
          f2: "fillFormalInfo formalInfoJson ?fresh (log_if_error error lg2) = (info2, lg2')"
          by (cases "fillFormalInfo formalInfoJson ?fresh (log_if_error error lg2)")
        have "info = info2"
          using fillFormalInfo_info_indep
                  [of formalInfoJson ?fresh "log_if_error error lg" "log_if_error error lg2"]
                f1 f2
          by simp
        then have f2': "fillFormalInfo formalInfoJson ?fresh (log_if_error error lg2)
                          = (info, lg2')"
          using f2 by simp
        have l: "fillFunctionInfo (member # js) pkgName pInfo lg
                   = fillFunctionInfo js pkgName (pInfo(functionName \<mapsto> info)) lg'"
          using member fields ro formal_info Some f1 by simp
        have r: "fillFunctionInfo (member # js) pkgName pInfo lg2
                   = fillFunctionInfo js pkgName (pInfo(functionName \<mapsto> info)) lg2'"
          using member fields ro formal_info Some f2' by simp
        show ?thesis
          unfolding l r by (rule Cons.IH)
      qed
    qed
  qed
qed

lemma fillFormalInfo_only_formals:
  "fst (fillFormalInfo js pInfo lg)
     = pInfo\<lparr>formals := formals (fst (fillFormalInfo js pInfo lg))\<rparr>"
proof (induction js arbitrary: pInfo lg)
  case Nil
  show ?case by simp
next
  case (Cons member js)
  obtain formalName v where member: "member = (formalName, v)"
    by (cases member)
  show ?case
  proof (cases "get_object v")
    case None
    with member show ?thesis by simp
  next
    case (Some fieldsJson)
    obtain error info where rf: "read_formal formalName fieldsJson = (error, info)"
      by (cases "read_formal formalName fieldsJson")
    have step: "fillFormalInfo (member # js) pInfo lg
                  = fillFormalInfo js (addFormal info pInfo) (log_if_error error lg)"
      using member Some rf by simp
    have "fst (fillFormalInfo js (addFormal info pInfo) (log_if_error error lg))
            = (addFormal info pInfo)
                \<lparr>formals := formals (fst (fillFormalInfo js (addFormal info pInfo)
                                               (log_if_error error lg)))\<rparr>"
      by (rule Cons.IH)
    then show ?thesis
      unfolding step by (simp add: addFormal_def)
  qed
qed

lemma fillFunctionInfo_keeps_other_names:
  "n \<notin> fst ` set js \<Longrightarrow> fst (snd (fillFunctionInfo js pkgName pInfo lg)) n = pInfo n"
proof (induction js arbitrary: pInfo lg)
  case Nil
  show ?case by simp
next
  case (Cons member js)
  obtain functionName v where member: "member = (functionName, v)"
    by (cases member)
  from Cons.prems member have other: "n \<noteq> functionName" and later: "n \<notin> fst ` set js"
    by auto
  show ?case
  proof (cases "get_object v")
    case None
    with member have "fillFunctionInfo (member # js) pkgName pInfo lg
         = fillFunctionInfo js pkgName pInfo (lg @ [logIncompatibleTypes v ObjectType])"
      by simp
    then show ?thesis
      by (simp only: Cons.IH [OF later])
  next
    case (Some functionFieldsJson)
    note fields = Some
    obtain error performsNseInt where
      ro: "readObject get_int functionFieldsJson ''performs_nse'' 0 = (error, performsNseInt)"
      by (cases "readObject get_int functionFieldsJson ''performs_nse'' 0")
    show ?thesis
    proof (cases "map_of functionFieldsJson ''formal_info''")
      case None
      with member fields ro show ?thesis by simp
    next
      case (Some val)
      note formal_info = Some
      show ?thesis
      proof (cases "get_object val")
        case None
        with member fields ro formal_info have
          "fillFunctionInfo (member # js) pkgName pInfo lg
             = fillFunctionInfo js pkgName pInfo
                 (log_if_error error lg @ [logIncompatibleTypes val ObjectType])"
          by simp
        then show ?thesis
          by (simp only: Cons.IH [OF later])
      next
        case (Some formalInfoJson)
        let ?fresh = "\<lparr>function_name = functionName, packageName = pkgName,
                        performsNse = (performsNseInt \<noteq> 0), isPrimitive = False,
                        formals = []\<rparr>"
        obtain info lg' where
          "fillFormalInfo formalInfoJson ?fresh (log_if_error error lg) = (info, lg')"
          by (cases "fillFormalInfo formalInfoJson ?fresh (log_if_error error lg)")
        with member fields ro formal_info Some have step:
          "fillFunctionInfo (member # js) pkgName pInfo lg
             = fillFunctionInfo js pkgName (pInfo(functionName \<mapsto> info)) lg'"
          by simp
        have "fst (snd (fillFunctionInfo js pkgName (pInfo(functionName \<mapsto> info)) lg')) n
                = (pInfo(functionName \<mapsto> info)) n"
          by (rule Cons.IH [OF later])
        also have "\<dots> = pInfo n"
          using other by simp
        finally show ?thesis
          unfolding step .
      qed
    qed
  qed
qed

text \<open>
  C10 (amended). Let the loop of \<open>fillFunctionInfo\<close> reach a function (no member
  \<open>before\<close> it lacks \<^verbatim>\<open>formal_info\<close>) whose \<^verbatim>\<open>formal_info\<close> consists of members
  \<open>pre\<close> that are all objects, then a member whose value \<open>v\<close> is not an object, then
  \<open>post\<close>. Then \<open>fillFormalInfo\<close> logs the type mismatch for \<open>v\<close> and returns with
  what it had built from \<open>pre\<close>: that member and all of \<open>post\<close> are dropped. The
  function is still inserted: the mapping that \<open>fillFunctionInfo\<close> returns holds under
  its name (the names of an object are distinct) the record with the name, the package
  and the flags of the function and exactly the formals of \<open>pre\<close>, and the mismatch is
  in the log handed on to the remaining functions. The formal that is not an object does
  not make \<open>fillFunctionInfo\<close> fail: it reports success unless a function \<open>rest\<close>
  after this one lacks \<^verbatim>\<open>formal_info\<close>.
\<close>

theorem non_object_formal_stops_formals_only:
  assumes "get_object v = None"
    and "list_all is_object_member pre"
    and "map_of functionFieldsJson ''formal_info'' = Some (JObject (pre @ (formalName, v) # post))"
    and "readObject get_int functionFieldsJson ''performs_nse'' 0 = (error, performsNseInt)"
    and "fillFormalInfo pre
           \<lparr>function_name = functionName, packageName = pkgName,
            performsNse = (performsNseInt \<noteq> 0), isPrimitive = False, formals = []\<rparr>
           [] = (info, lg_pre)"
    and "\<not> list_ex lacks_formal_info before"
    and "functionName \<notin> fst ` set rest"
  shows "fillFormalInfo (pre @ (formalName, v) # post) pInfo lg0 =
           (fst (fillFormalInfo pre pInfo lg0),
            snd (fillFormalInfo pre pInfo lg0) @ [logIncompatibleTypes v ObjectType])
       \<and> info = \<lparr>function_name = functionName, packageName = pkgName,
                  performsNse = (performsNseInt \<noteq> 0), isPrimitive = False,
                  formals = formals info\<rparr>
       \<and> list_all2 decodes pre (formals info)
       \<and> fst (snd (fillFunctionInfo
                    (before @ (functionName, JObject functionFieldsJson) # rest)
                    pkgName functions lg)) functionName = Some info
       \<and> fst (fillFunctionInfo
               (before @ (functionName, JObject functionFieldsJson) # rest)
               pkgName functions lg) = (\<not> list_ex lacks_formal_info rest)
       \<and> fillFunctionInfo ((functionName, JObject functionFieldsJson) # rest)
             pkgName functions lg =
           fillFunctionInfo rest pkgName (functions(functionName \<mapsto> info))
             (snd (fillFormalInfo pre
                     \<lparr>function_name = functionName, packageName = pkgName,
                      performsNse = (performsNseInt \<noteq> 0), isPrimitive = False,
                      formals = []\<rparr>
                     (log_if_error error lg))
                @ [logIncompatibleTypes v ObjectType])"
proof -
  let ?fresh = "\<lparr>function_name = functionName, packageName = pkgName,
                  performsNse = (performsNseInt \<noteq> 0), isPrimitive = False, formals = []\<rparr>"
  let ?entry = "(functionName, JObject functionFieldsJson)"
  have stop: "\<And>pInfo lg0. fillFormalInfo (pre @ (formalName, v) # post) pInfo lg0 =
           (fst (fillFormalInfo pre pInfo lg0),
            snd (fillFormalInfo pre pInfo lg0) @ [logIncompatibleTypes v ObjectType])"
    using assms(1) by (simp add: fillFormalInfo_append [OF assms(2)])
  have info_any: "\<And>lg1. fst (fillFormalInfo pre ?fresh lg1) = info"
    using fillFormalInfo_info_indep [of pre ?fresh _ "[]"] assms(5) by simp
  have shape: "info = \<lparr>function_name = functionName, packageName = pkgName,
                  performsNse = (performsNseInt \<noteq> 0), isPrimitive = False,
                  formals = formals info\<rparr>"
    using fillFormalInfo_only_formals [of pre ?fresh "[]"] assms(5) by simp
  have prefix: "list_all2 decodes pre (formals info)"
    using fillFormalInfo_all_objects [OF assms(2), of ?fresh "[]"] assms(5) by simp
  have step: "\<And>fmap lg.
      fillFunctionInfo (?entry # rest) pkgName fmap lg =
           fillFunctionInfo rest pkgName (fmap(functionName \<mapsto> info))
             (snd (fillFormalInfo pre ?fresh (log_if_error error lg))
                @ [logIncompatibleTypes v ObjectType])"
  proof -
    fix fmap :: "string \<rightharpoonup> FunctionInformation" and lg :: "log_entry list"
    have "fillFormalInfo (pre @ (formalName, v) # post) ?fresh (log_if_error error lg)
            = (info, snd (fillFormalInfo pre ?fresh (log_if_error error lg))
                       @ [logIncompatibleTypes v ObjectType])"
      by (simp only: stop info_any)
    with assms(3,4) show "fillFunctionInfo (?entry # rest) pkgName fmap lg =
           fillFunctionInfo rest pkgName (fmap(functionName \<mapsto> info))
             (snd (fillFormalInfo pre ?fresh (log_if_error error lg))
                @ [logIncompatibleTypes v ObjectType])"
      by simp
  qed
  have reach: "fillFunctionInfo (before @ ?entry # rest) pkgName functions lg =
      fillFunctionInfo (?entry # rest) pkgName
        (fst (snd (fillFunctionInfo before pkgName functions lg)))
        (snd (snd (fillFunctionInfo before pkgName functions lg)))"
    by (rule fillFunctionInfo_append [OF assms(6)])
  have inserted: "fst (snd (fillFunctionInfo (before @ ?entry # rest) pkgName functions lg))
                    functionName = Some info"
    unfolding reach step
    by (simp only: fillFunctionInfo_keeps_other_names [OF assms(7)] fun_upd_same)
  have here: "\<not> lacks_formal_info ?entry"
    using assms(3) by (simp add: lacks_formal_info_def)
  have success: "fst (fillFunctionInfo (before @ ?entry # rest) pkgName functions lg)
                   = (\<not> list_ex lacks_formal_info rest)"
    using here assms(6) by (simp add: fillFunctionInfo_success del: fillFunctionInfo.simps)
  from stop shape prefix inserted success step show ?thesis
    by blast
qed

theorem non_object_formal_stops_formals_only_witness:
  "get_object (JInt 3) = None
     \<and> list_all is_object_member [(''a'', JObject [(''is_used'', JInt 1)])]
     \<and> \<not> list_ex lacks_formal_info []
     \<and> ''f'' \<notin> fst ` set (tl ex_function_info)
     \<and> fillFunctionInfo ex_function_info ''foo'' Map.empty [] =
         (True,
          [''f'' \<mapsto>
             \<lparr>function_name = ''f'', packageName = ''foo'', performsNse = True,
              isPrimitive = False,
              formals = [\<lparr>formal_name = ''a'', isUsed = True, hasDefaultValue = True,
                          missingnessHandled = True\<rparr>]\<rparr>,
           ''g'' \<mapsto>
             \<lparr>function_name = ''g'', packageName = ''foo'', performsNse = False,
              isPrimitive = False, formals = []\<rparr>],
          [LOG_ERROR ParamMissing, logIncompatibleTypes (JInt 3) ObjectType])
     \<and> fst (snd (fillFunctionInfo ex_function_info ''foo'' Map.empty [])) ''f'' =
         Some \<lparr>function_name = ''f'', packageName = ''foo'', performsNse = True,
               isPrimitive = False,
               formals = [\<lparr>formal_name = ''a'', isUsed = True, hasDefaultValue = True,
                           missingnessHandled = True\<rparr>]\<rparr>"
proof -
  let ?fields = "[(''formal_info'', JObject
                     [(''a'', JObject [(''is_used'', JInt 1)]),
                      (''b'', JInt 3),
                      (''c'', JObject [])]),
                  (''performs_nse'', JInt 1)]"
  let ?a = "\<lparr>formal_name = ''a'', isUsed = True, hasDefaultValue = True,
              missingnessHandled = True\<rparr>"
  let ?f = "\<lparr>function_name = ''f'', packageName = ''foo'', performsNse = True,
              isPrimitive = False, formals = [?a]\<rparr>"
  have h1: "get_object (JInt 3) = None"
    by simp
  have h2: "list_all is_object_member [(''a'', JObject [(''is_used'', JInt 1)])]"
    by (simp add: is_object_member_def)
  have h3: "map_of ?fields ''formal_info''
              = Some (JObject ([(''a'', JObject [(''is_used'', JInt 1)])]
                                @ (''b'', JInt 3) # [(''c'', JObject [])]))"
    by simp
  have h4: "readObject get_int ?fields ''performs_nse'' 0 = (None, 1)"
    by (simp add: readObject_def)
  have h5: "fillFormalInfo [(''a'', JObject [(''is_used'', JInt 1)])]
              \<lparr>function_name = ''f'', packageName = ''foo'',
               performsNse = ((1::int) \<noteq> 0), isPrimitive = False, formals = []\<rparr>
              [] = (?f, [LOG_ERROR ParamMissing])"
    by (simp add: read_formal_def readObject3_def readObject2_def readObject_def
          addFormal_def log_if_error_def)
  have h6: "\<not> list_ex lacks_formal_info []"
    by simp
  have h7: "''f'' \<notin> fst ` set (tl ex_function_info)"
    by (simp add: ex_function_info_def)
  have whole: "fillFunctionInfo ex_function_info ''foo'' Map.empty [] =
         (True,
          [''f'' \<mapsto> ?f,
           ''g'' \<mapsto>
             \<lparr>function_name = ''g'', packageName = ''foo'', performsNse = False,
              isPrimitive = False, formals = []\<rparr>],
          [LOG_ERROR ParamMissing, logIncompatibleTypes (JInt 3) ObjectType])"
    by (simp add: ex_function_info_def read_formal_def readObject3_def readObject2_def
          readObject_def addFormal_def log_if_error_def)
  from non_object_formal_stops_formals_only
         [OF h1 h2 h3 h4 h5 h6 h7, of ex_function "[]" Map.empty "[]"]
  have "fst (snd (fillFunctionInfo ([] @ (''f'', JObject ?fields) # tl ex_function_info)
                    ''foo'' Map.empty [])) ''f'' = Some ?f"
    by blast
  then have inserted: "fst (snd (fillFunctionInfo ex_function_info ''foo'' Map.empty [])) ''f''
                         = Some ?f"
    by (simp add: ex_function_info_def)
  from h1 h2 h6 h7 whole inserted show ?thesis
    by blast
qed

text \<open>
  C10 as stated fails: success is not reported for every such object. When the function
  \<open>f\<close>, whose formal \<open>b\<close> is the number 3, is followed by a function \<open>g\<close> without
  \<^verbatim>\<open>formal_info\<close>, \<open>fillFunctionInfo\<close> reports failure; \<open>f\<close> is in the mapping
  all the same, with the one formal decoded before \<open>b\<close>.
\<close>

theorem non_object_formal_then_missing_formal_info_fails:
  "map_of [(''formal_info'', JObject
              [(''a'', JObject [(''is_used'', JInt 1)]),
               (''b'', JInt 3),
               (''c'', JObject [])]),
           (''performs_nse'', JInt 1)] ''formal_info''
     = Some (JObject [(''a'', JObject [(''is_used'', JInt 1)]),
                      (''b'', JInt 3),
                      (''c'', JObject [])])
   \<and> get_object (JInt 3) = None
   \<and> fst (fillFunctionInfo ex_function_info_mixed ''foo'' Map.empty []) = False
   \<and> fst (snd (fillFunctionInfo ex_function_info_mixed ''foo'' Map.empty [])) ''f'' =
       Some \<lparr>function_name = ''f'', packageName = ''foo'', performsNse = True,
             isPrimitive = False,
             formals = [\<lparr>formal_name = ''a'', isUsed = True, hasDefaultValue = True,
                         missingnessHandled = True\<rparr>]\<rparr>"
  by (simp add: ex_function_info_mixed_def read_formal_def readObject3_def readObject2_def
        readObject_def addFormal_def log_if_error_def)

lemma read_package_lacking:
  assumes "readObject4 get_str get_array get_array get_object object
             ''package'' [] ''exports'' [] ''types'' [] ''function_info'' []
           = (None, pkg, exportsJson, typesJson, functionInfoJson)"
    and "list_ex lacks_formal_info functionInfoJson"
  shows "\<exists>lg'. read_package object lg =
           (Some \<lparr>package = pkg,
                  exports = snd (fillVectorString exportsJson []),
                  types = snd (fillVectorInt typesJson []),
                  functionInfo = fst (snd (fillFunctionInfo functionInfoJson pkg Map.empty []))\<rparr>,
            lg' @ [LOG_ERROR_MESSAGE ''Failed to read JSON 'functions' object to map''])"
proof -
  obtain ok1 pkgExports where e: "fillVectorString exportsJson [] = (ok1, pkgExports)"
    by (cases "fillVectorString exportsJson []")
  obtain ok2 pkgTypes where t: "fillVectorInt typesJson [] = (ok2, pkgTypes)"
    by (cases "fillVectorInt typesJson []")
  let ?lg = "lg @ (if ok1 then []
                   else [LOG_ERROR_MESSAGE ''Failed to read JSON 'objects' array to vector''])
                @ (if ok2 then []
                   else [LOG_ERROR_MESSAGE ''Failed to read JSON 'types' array to vector''])"
  obtain ok3 pkgFunctionInfo lg' where
    f: "fillFunctionInfo functionInfoJson pkg Map.empty ?lg = (ok3, pkgFunctionInfo, lg')"
    by (cases "fillFunctionInfo functionInfoJson pkg Map.empty ?lg")
  have "\<not> ok3"
    using fillFunctionInfo_success [of functionInfoJson pkg Map.empty ?lg] f assms(2)
    by simp
  moreover have "pkgFunctionInfo = fst (snd (fillFunctionInfo functionInfoJson pkg Map.empty []))"
    using fillFunctionInfo_map_indep [of functionInfoJson pkg Map.empty ?lg "[]"] f
    by simp
  ultimately have "read_package object lg =
           (Some \<lparr>package = pkg,
                  exports = snd (fillVectorString exportsJson []),
                  types = snd (fillVectorInt typesJson []),
                  functionInfo = fst (snd (fillFunctionInfo functionInfoJson pkg Map.empty []))\<rparr>,
            lg' @ [LOG_ERROR_MESSAGE ''Failed to read JSON 'functions' object to map''])"
    using assms(1) e t f
    by (simp add: read_package_def PackageInformation_default_def)
  then show ?thesis by blast
qed

lemma ex_parse_bar: "ex_parse line_bar = Some json_bar"
  by (simp add: ex_parse_def line_bar_def line_foo_def)

lemma ex_parse_foo: "ex_parse line_foo = Some json_foo"
  by (simp add: ex_parse_def)

lemma ex_parse_array: "ex_parse line_array = Some (JArray [JInt 1, JInt 2])"
  by (simp add: ex_parse_def line_array_def line_bar_def line_foo_def)

lemma ex_parse_cut: "ex_parse line_cut = None"
  by (simp add: ex_parse_def line_array_def line_bar_def line_foo_def line_cut_def)

text \<open>
  C4. Let a \<^verbatim>\<open>function_info\<close> object consist of members \<open>pre\<close>, none of which lacks
  \<^verbatim>\<open>formal_info\<close>, then a function whose object has no key \<^verbatim>\<open>formal_info\<close>, then
  \<open>post\<close>. Then \<open>fillFunctionInfo\<close> logs the warning that names the function and
  returns failure at once: the mapping is the one built from \<open>pre\<close>, so the functions
  inserted before are kept and neither the offending function nor any of \<open>post\<close> is
  inserted. For a line whose record passes the structural read with such a
  \<^verbatim>\<open>function_info\<close>, the loop of \<open>onCompleted\<close> still writes the package to the
  index, with its exports, its types and that partial mapping, and goes on.
\<close>

theorem missing_formal_info_aborts_extraction:
  assumes "map_of functionFieldsJson ''formal_info'' = None"
    and "\<not> list_ex lacks_formal_info pre"
    and "line \<noteq> []"
    and "parse line = Some (JObject object)"
    and "readObject4 get_str get_array get_array get_object object
           ''package'' [] ''exports'' [] ''types'' [] ''function_info'' []
         = (None, pkg, exportsJson, typesJson,
            pre @ (functionName, JObject functionFieldsJson) # post)"
  shows "fillFunctionInfo (pre @ (functionName, JObject functionFieldsJson) # post)
             pkgName pInfo lg =
           (False,
            fst (snd (fillFunctionInfo pre pkgName pInfo lg)),
            log_if_error (fst (readObject get_int functionFieldsJson ''performs_nse'' 0))
                (snd (snd (fillFunctionInfo pre pkgName pInfo lg)))
              @ [LOG_WARNING_MESSAGE
                   (''No formal information for function ''
                      @ [CHR 0x27] @ functionName @ [CHR 0x27])])
       \<and> (\<exists>lg'. process_lines parse (line # splat) st =
             process_lines parse splat
               (st\<lparr>logged := lg'
                     @ [LOG_ERROR_MESSAGE
                          ''Failed to read JSON 'functions' object to map''],
                   packageInformation := (packageInformation st)
                      (pkg \<mapsto>
                         \<lparr>package = pkg,
                          exports = snd (fillVectorString exportsJson []),
                          types = snd (fillVectorInt typesJson []),
                          functionInfo =
                            fst (snd (fillFunctionInfo pre pkg Map.empty []))\<rparr>)\<rparr>))"
proof -
  let ?entry = "(functionName, JObject functionFieldsJson)"
  have abort: "\<And>pkgName pInfo lg.
      fillFunctionInfo (pre @ ?entry # post) pkgName pInfo lg =
           (False,
            fst (snd (fillFunctionInfo pre pkgName pInfo lg)),
            log_if_error (fst (readObject get_int functionFieldsJson ''performs_nse'' 0))
                (snd (snd (fillFunctionInfo pre pkgName pInfo lg)))
              @ [LOG_WARNING_MESSAGE
                   (''No formal information for function ''
                      @ [CHR 0x27] @ functionName @ [CHR 0x27])])"
    by (simp only: fillFunctionInfo_append [OF assms(2)]
          fillFunctionInfo_lacking [OF assms(1)] no_formal_information_def)
  have "lacks_formal_info ?entry"
    using assms(1) by (simp add: lacks_formal_info_def)
  then have lacking: "list_ex lacks_formal_info (pre @ ?entry # post)"
    by simp
  from read_package_lacking [OF assms(5) lacking, of "logged st"]
  obtain lg' where
    "read_package object (logged st) =
       (Some \<lparr>package = pkg,
              exports = snd (fillVectorString exportsJson []),
              types = snd (fillVectorInt typesJson []),
              functionInfo =
                fst (snd (fillFunctionInfo (pre @ ?entry # post) pkg Map.empty []))\<rparr>,
        lg' @ [LOG_ERROR_MESSAGE ''Failed to read JSON 'functions' object to map''])"
    by blast
  then have rp: "read_package object (logged st) =
       (Some \<lparr>package = pkg,
              exports = snd (fillVectorString exportsJson []),
              types = snd (fillVectorInt typesJson []),
              functionInfo = fst (snd (fillFunctionInfo pre pkg Map.empty []))\<rparr>,
        lg' @ [LOG_ERROR_MESSAGE ''Failed to read JSON 'functions' object to map''])"
    by (simp only: abort fst_conv snd_conv)
  have "process_lines parse (line # splat) st =
             process_lines parse splat
               (st\<lparr>logged := lg'
                     @ [LOG_ERROR_MESSAGE
                          ''Failed to read JSON 'functions' object to map''],
                   packageInformation := (packageInformation st)
                      (pkg \<mapsto>
                         \<lparr>package = pkg,
                          exports = snd (fillVectorString exportsJson []),
                          types = snd (fillVectorInt typesJson []),
                          functionInfo =
                            fst (snd (fillFunctionInfo pre pkg Map.empty []))\<rparr>)\<rparr>)"
    using assms(3,4) rp by (simp add: addPackageInformation_def)
  then have "\<exists>lg'. process_lines parse (line # splat) st =
             process_lines parse splat
               (st\<lparr>logged := lg'
                     @ [LOG_ERROR_MESSAGE
                          ''Failed to read JSON 'functions' object to map''],
                   packageInformation := (packageInformation st)
                      (pkg \<mapsto>
                         \<lparr>package = pkg,
                          exports = snd (fillVectorString exportsJson []),
                          types = snd (fillVectorInt typesJson []),
                          functionInfo =
                            fst (snd (fillFunctionInfo pre pkg Map.empty []))\<rparr>)\<rparr>)"
    by blast
  with abort show ?thesis
    by blast
qed

theorem missing_formal_info_aborts_extraction_witness:
  "map_of [(''performs_nse'', JInt 0)] ''formal_info'' = None
     \<and> \<not> list_ex lacks_formal_info (take 1 ex_function_info_lacking)
     \<and> line_bar \<noteq> []
     \<and> fillFunctionInfo ex_function_info_lacking ''bar'' Map.empty [] =
         (False,
          [''f'' \<mapsto> \<lparr>function_name = ''f'', packageName = ''bar'', performsNse = True,
                      isPrimitive = False, formals = []\<rparr>],
          [LOG_WARNING_MESSAGE (''No formal information for function 'g'' @ [CHR 0x27])])
     \<and> packageInformation (snd (process_lines ex_parse [line_bar] idle)) ''bar'' =
         Some \<lparr>package = ''bar'', exports = [''g''], types = [6],
               functionInfo =
                 [''f'' \<mapsto> \<lparr>function_name = ''f'', packageName = ''bar'',
                             performsNse = True, isPrimitive = False, formals = []\<rparr>]\<rparr>"
proof -
  let ?f = "(''f'', JObject [(''formal_info'', JObject []), (''performs_nse'', JInt 1)])"
  let ?h = "(''h'', JObject [(''formal_info'', JObject []), (''performs_nse'', JInt 0)])"
  let ?object = "[(''exports'', JArray [JString ''g'']),
                  (''function_info'', JObject ex_function_info_lacking),
                  (''package'', JString ''bar''),
                  (''types'', JArray [JInt 6])]"
  have h1: "map_of [(''performs_nse'', JInt 0)] ''formal_info'' = None"
    by simp
  have h2: "\<not> list_ex lacks_formal_info [?f]"
    by (simp add: lacks_formal_info_def)
  have h3: "line_bar \<noteq> []"
    by (simp add: line_bar_def)
  have h4: "ex_parse line_bar = Some (JObject ?object)"
    by (simp add: ex_parse_bar json_bar_def)
  have h5: "readObject4 get_str get_array get_array get_object ?object
              ''package'' [] ''exports'' [] ''types'' [] ''function_info'' []
            = (None, ''bar'', [JString ''g''], [JInt 6],
               [?f] @ (''g'', JObject [(''performs_nse'', JInt 0)]) # [?h])"
    by (simp add: readObject4_def readObject3_def readObject2_def readObject_def
          ex_function_info_lacking_def)
  from missing_formal_info_aborts_extraction
         [where parse = ex_parse and line = line_bar and pkgName = "''bar''"
            and pInfo = Map.empty and lg = "[]" and splat = "[]" and st = idle,
          OF h1 h2 h3 h4 h5]
  show ?thesis
    using h1 h2 h3
    by (simp add: ex_function_info_lacking_def readObject_def log_if_error_def
          fillVectorString_def fillVectorInt_def idle_def no_formal_information_def
          ex_parse_bar json_bar_def read_package_def readObject4_def readObject3_def
          readObject2_def PackageInformation_default_def addPackageInformation_def)
qed

subsection \<open>The loop of onCompleted\<close>

lemma read_package_indep: "fst (read_package object lg) = fst (read_package object lg2)"
proof -
  obtain error pkg exportsJson typesJson functionInfoJson where
    ro: "readObject4 get_str get_array get_array get_object object
           ''package'' (package PackageInformation_default)
           ''exports'' [] ''types'' [] ''function_info'' []
         = (error, pkg, exportsJson, typesJson, functionInfoJson)"
    by (metis prod_cases5)
  show ?thesis
  proof (cases error)
    case (Some e)
    with ro show ?thesis by (simp add: read_package_def)
  next
    case None
    obtain ok1 pkgExports where
      e: "fillVectorString exportsJson (exports PackageInformation_default) = (ok1, pkgExports)"
      by (cases "fillVectorString exportsJson (exports PackageInformation_default)")
    obtain ok2 pkgTypes where
      t: "fillVectorInt typesJson (types PackageInformation_default) = (ok2, pkgTypes)"
      by (cases "fillVectorInt typesJson (types PackageInformation_default)")
    let ?tail = "(if ok1 then []
                  else [LOG_ERROR_MESSAGE ''Failed to read JSON 'objects' array to vector''])
               @ (if ok2 then []
                  else [LOG_ERROR_MESSAGE ''Failed to read JSON 'types' array to vector''])"
    let ?m = "functionInfo PackageInformation_default"
    obtain ok3 fi lg' where
      f1: "fillFunctionInfo functionInfoJson pkg ?m (lg @ ?tail) = (ok3, fi, lg')"
      by (cases "fillFunctionInfo functionInfoJson pkg ?m (lg @ ?tail)")
    obtain ok3' fi' lg2' where
      f2: "fillFunctionInfo functionInfoJson pkg ?m (lg2 @ ?tail) = (ok3', fi', lg2')"
      by (cases "fillFunctionInfo functionInfoJson pkg ?m (lg2 @ ?tail)")
    have "fi = fi'"
      using fillFunctionInfo_map_indep [of functionInfoJson pkg ?m "lg @ ?tail" "lg2 @ ?tail"]
            f1 f2
      by simp
    with ro None e t f1 f2 show ?thesis
      by (simp add: read_package_def)
  qed
qed

lemma process_lines_parse_failure:
  "line \<noteq> [] \<Longrightarrow> parse line = None \<Longrightarrow>
   process_lines parse (line # splat) st =
     process_lines parse splat
       (st\<lparr>logged := logged st @ [LOG_ERROR_MESSAGE (failed_to_parse line)]\<rparr>)"
  by (simp add: write_log_def)

lemma process_lines_not_object:
  "line \<noteq> [] \<Longrightarrow> parse line = Some value \<Longrightarrow> get_object value = None \<Longrightarrow>
   process_lines parse (line # splat) st = (Some (runtime_error (type_of value) ObjectType), st)"
  by (cases "value") simp_all

lemma process_lines_structural_read_failure:
  assumes "line \<noteq> []"
    and "parse line = Some (JObject object)"
    and "readObject4 get_str get_array get_array get_object object
           ''package'' [] ''exports'' [] ''types'' [] ''function_info'' []
         = (Some error, pkg, exportsJson, typesJson, functionInfoJson)"
  shows "process_lines parse (line # splat) st =
           process_lines parse splat (st\<lparr>logged := logged st @ [LOG_ERROR error]\<rparr>)"
  using assms by (simp add: read_package_def PackageInformation_default_def)

lemma process_lines_entry:
  assumes "line_entry parse line = Some info"
  shows "\<exists>lg. process_lines parse (line # splat) st =
           process_lines parse splat
             (st\<lparr>logged := lg,
                 packageInformation := (packageInformation st)(package info \<mapsto> info)\<rparr>)"
proof -
  from assms have ne: "line \<noteq> []"
    by (auto simp: line_entry_def split: if_splits)
  from assms ne obtain val where p: "parse line = Some val"
    by (auto simp: line_entry_def split: option.splits)
  from assms ne p obtain object where o: "get_object val = Some object"
    by (auto simp: line_entry_def split: option.splits)
  then have v: "val = JObject object"
    by (cases val) simp_all
  from assms ne p o have "fst (read_package object []) = Some info"
    by (simp add: line_entry_def)
  then have "fst (read_package object (logged st)) = Some info"
    using read_package_indep [of object "logged st" "[]"] by simp
  then obtain lg where "read_package object (logged st) = (Some info, lg)"
    by (cases "read_package object (logged st)") simp
  with ne p v have "process_lines parse (line # splat) st =
           process_lines parse splat
             (st\<lparr>logged := lg,
                 packageInformation := (packageInformation st)(package info \<mapsto> info)\<rparr>)"
    by (simp add: addPackageInformation_def)
  then show ?thesis by blast
qed

lemma split_no_newline: "CHR 0x0A \<notin> set a \<Longrightarrow> split a = [a]"
  by (induction a) auto

lemma split_at_newline:
  "CHR 0x0A \<notin> set a \<Longrightarrow> split (a @ CHR 0x0A # rest) = a # split rest"
  by (induction a) auto

lemma output_not_blank:
  "a \<noteq> [] \<Longrightarrow> a @ CHR 0x0A # rest \<noteq> [] \<and> a @ CHR 0x0A # rest \<noteq> [CHR 0x0A]"
  by (cases a) auto

lemma line_entry_nonempty: "line_entry parse line = Some info \<Longrightarrow> line \<noteq> []"
  by (auto simp: line_entry_def split: if_splits)

lemma process_lines_frame:
  "s_pkgsToUpdate (snd (process_lines parse splat st)) = s_pkgsToUpdate st
     \<and> s_isUpdating (snd (process_lines parse splat st)) = s_isUpdating st
     \<and> stdOut (snd (process_lines parse splat st)) = stdOut st
     \<and> started (snd (process_lines parse splat st)) = started st"
proof (induction splat arbitrary: st)
  case Nil
  show ?case by simp
next
  case (Cons line splat)
  show ?case
    using Cons.IH
    by (simp add: write_log_def addPackageInformation_def
          split: option.splits sum.splits prod.splits)
qed

lemma process_lines_index:
  "\<exists>G t. \<forall>st. fst (process_lines parse splat st) = t
      \<and> packageInformation (snd (process_lines parse splat st)) = packageInformation st ++ G"
proof (induction splat)
  case Nil
  have "\<forall>st. fst (process_lines parse [] st) = None
      \<and> packageInformation (snd (process_lines parse [] st)) = packageInformation st ++ Map.empty"
    by simp
  then show ?case by blast
next
  case (Cons line splat)
  then obtain G t where
    IH: "\<And>st. fst (process_lines parse splat st) = t"
        "\<And>st. packageInformation (snd (process_lines parse splat st)) = packageInformation st ++ G"
    by blast
  show ?case
  proof (cases "line = []")
    case True
    then have "\<forall>st. fst (process_lines parse (line # splat) st) = t
      \<and> packageInformation (snd (process_lines parse (line # splat) st)) = packageInformation st ++ G"
      by (simp add: IH)
    then show ?thesis by blast
  next
    case False
    note ne = False
    show ?thesis
    proof (cases "parse line")
      case None
      with ne have "\<forall>st. fst (process_lines parse (line # splat) st) = t
        \<and> packageInformation (snd (process_lines parse (line # splat) st))
            = packageInformation st ++ G"
        by (simp add: IH write_log_def)
      then show ?thesis by blast
    next
      case (Some val)
      note parsed = Some
      show ?thesis
      proof (cases "get_object val")
        case None
        from process_lines_not_object [where parse = parse and line = line, OF ne parsed None]
        have "\<forall>st. fst (process_lines parse (line # splat) st)
                  = Some (runtime_error (type_of val) ObjectType)
          \<and> packageInformation (snd (process_lines parse (line # splat) st))
              = packageInformation st ++ Map.empty"
          by simp
        then show ?thesis by blast
      next
        case (Some object)
        then have val: "val = JObject object"
          by (cases val) simp_all
        show ?thesis
        proof (cases "fst (read_package object [])")
          case None
          have "\<forall>st. fst (process_lines parse (line # splat) st) = t
            \<and> packageInformation (snd (process_lines parse (line # splat) st))
                = packageInformation st ++ G"
          proof
            fix st :: state
            have "fst (read_package object (logged st)) = None"
              using read_package_indep [of object "logged st" "[]"] None by simp
            then obtain lg where "read_package object (logged st) = (None, lg)"
              by (cases "read_package object (logged st)") simp
            with ne parsed val
            have "process_lines parse (line # splat) st
                    = process_lines parse splat (st\<lparr>logged := lg\<rparr>)"
              by simp
            then show "fst (process_lines parse (line # splat) st) = t
              \<and> packageInformation (snd (process_lines parse (line # splat) st))
                  = packageInformation st ++ G"
              by (simp add: IH)
          qed
          then show ?thesis by blast
        next
          case (Some info)
          have entry: "line_entry parse line = Some info"
            using ne parsed val Some by (simp add: line_entry_def)
          have "\<forall>st. fst (process_lines parse (line # splat) st) = t
            \<and> packageInformation (snd (process_lines parse (line # splat) st))
                = packageInformation st ++ ([package info \<mapsto> info] ++ G)"
          proof
            fix st :: state
            from process_lines_entry [OF entry, of splat st]
            obtain lg where "process_lines parse (line # splat) st =
                process_lines parse splat
                  (st\<lparr>logged := lg,
                      packageInformation := (packageInformation st)(package info \<mapsto> info)\<rparr>)"
              by blast
            then show "fst (process_lines parse (line # splat) st) = t
              \<and> packageInformation (snd (process_lines parse (line # splat) st))
                  = packageInformation st ++ ([package info \<mapsto> info] ++ G)"
              by (simp add: IH)
          qed
          then show ?thesis by blast
        qed
      qed
    qed
  qed
qed

lemma process_lines_keeps_entries:
  assumes "packageInformation st pkg \<noteq> None"
  shows "packageInformation (snd (process_lines parse splat st)) pkg \<noteq> None"
proof -
  from process_lines_index [of parse splat] obtain G where
    "packageInformation (snd (process_lines parse splat st)) = packageInformation st ++ G"
    by blast
  with assms show ?thesis
    by (auto simp: map_add_def split: option.splits)
qed

lemma process_lines_reaches_entry:
  assumes "line \<in> set splat" and "line_entry parse line = Some info"
    and "fst (process_lines parse splat st) = None"
  shows "packageInformation (snd (process_lines parse splat st)) (package info) \<noteq> None"
  using assms
proof (induction splat arbitrary: st)
  case Nil
  then show ?case by simp
next
  case (Cons l splat)
  show ?case
  proof (cases "l = line")
    case True
    from process_lines_entry [OF Cons.prems(2), of splat st]
    obtain lg where "process_lines parse (line # splat) st =
        process_lines parse splat
          (st\<lparr>logged := lg,
              packageInformation := (packageInformation st)(package info \<mapsto> info)\<rparr>)"
      by blast
    moreover have "packageInformation
             (snd (process_lines parse splat
                (st\<lparr>logged := lg,
                    packageInformation := (packageInformation st)(package info \<mapsto> info)\<rparr>)))
             (package info) \<noteq> None"
      by (rule process_lines_keeps_entries) simp
    ultimately show ?thesis
      using True by simp
  next
    case False
    with Cons.prems(1) have mem: "line \<in> set splat"
      by simp
    have "\<exists>st'. process_lines parse (l # splat) st = process_lines parse splat st'"
      using Cons.prems(3)
      by (auto simp: split: option.splits sum.splits prod.splits if_splits)
    then obtain st' where step: "process_lines parse (l # splat) st = process_lines parse splat st'"
      by blast
    with Cons.prems(3) have "fst (process_lines parse splat st') = None"
      by simp
    from Cons.IH [OF mem Cons.prems(2) this] step show ?thesis
      by simp
  qed
qed

subsection \<open>The finalizer\<close>

lemma give_empty_frame:
  "s_pkgsToUpdate (give_empty pkgs st) = s_pkgsToUpdate st
     \<and> s_isUpdating (give_empty pkgs st) = s_isUpdating st
     \<and> stdOut (give_empty pkgs st) = stdOut st
     \<and> logged (give_empty pkgs st) = logged st
     \<and> started (give_empty pkgs st) = started st"
  by (induction pkgs arbitrary: st) (simp_all add: addPackageInformation_def)

lemma give_empty_index:
  "packageInformation (give_empty pkgs st) pkg =
     (case packageInformation st pkg of
        Some info \<Rightarrow> Some info
      | None \<Rightarrow> if pkg \<in> set pkgs then Some PackageInformation_default else None)"
  by (induction pkgs arbitrary: st)
     (auto simp: addPackageInformation_def hasInformation_def split: option.splits)

lemma onCompleted_body_frame:
  "s_pkgsToUpdate (snd (onCompleted_body parse exitStatus st)) = s_pkgsToUpdate st
     \<and> s_isUpdating (snd (onCompleted_body parse exitStatus st)) = s_isUpdating st
     \<and> started (snd (onCompleted_body parse exitStatus st)) = started st"
  by (simp add: onCompleted_body_def Let_def process_lines_frame)

lemma onCompleted_snd:
  "snd (onCompleted parse exitStatus st)
     = CompleteUpdateOnExit_dtor (snd (onCompleted_body parse exitStatus st))"
  by (simp add: onCompleted_def split: prod.splits)

lemma onCompleted_fst:
  "fst (onCompleted parse exitStatus st) = fst (onCompleted_body parse exitStatus st)"
  by (simp add: onCompleted_def split: prod.splits)

lemma dtor_index:
  "packageInformation (CompleteUpdateOnExit_dtor st) pkg =
     (case packageInformation st pkg of
        Some info \<Rightarrow> Some info
      | None \<Rightarrow> if pkg \<in> set (s_pkgsToUpdate st) then Some PackageInformation_default
                else None)"
  by (simp add: CompleteUpdateOnExit_dtor_def give_empty_index)

lemma split_blank:
  "out = [] \<or> out = [CHR 0x0A] \<Longrightarrow> line \<in> set (split out) \<Longrightarrow> line = []"
  by auto

lemma onCompleted_body_lines:
  assumes "line \<in> set (split (stdOut st))" and "line \<noteq> []"
  shows "onCompleted_body parse exitStatus st
           = process_lines parse (split (stdOut st)) (st\<lparr>stdOut := []\<rparr>)"
proof -
  have "\<not> (stdOut st = [] \<or> stdOut st = [CHR 0x0A])"
    using split_blank [of "stdOut st" line] assms by blast
  then show ?thesis
    by (simp add: onCompleted_body_def Let_def)
qed

subsection \<open>The concrete lines\<close>

lemma ex_lines_nonempty:
  "line_foo \<noteq> []" "line_bar \<noteq> []" "line_cut \<noteq> []" "line_array \<noteq> []"
  by (simp_all add: line_foo_def line_bar_def line_cut_def line_array_def)

lemma ex_lines_no_newline:
  "CHR 0x0A \<notin> set line_foo" "CHR 0x0A \<notin> set line_bar"
  "CHR 0x0A \<notin> set line_cut" "CHR 0x0A \<notin> set line_array"
  by (simp_all add: line_foo_def line_bar_def line_cut_def line_array_def)

lemma read_package_foo:
  "read_package
     [(''exports'', JArray [JString ''a'', JString ''b'']),
      (''function_info'', JObject []),
      (''package'', JString ''foo''),
      (''types'', JArray [JInt 1, JInt 2])] lg
   = (Some \<lparr>package = ''foo'', exports = [''a'', ''b''], types = [1, 2],
             functionInfo = Map.empty\<rparr>, lg)"
  by (simp add: read_package_def readObject4_def readObject3_def readObject2_def
        readObject_def fillVectorString_def fillVectorInt_def PackageInformation_default_def)

lemma line_entry_foo:
  "line_entry ex_parse line_foo
     = Some \<lparr>package = ''foo'', exports = [''a'', ''b''], types = [1, 2],
             functionInfo = Map.empty\<rparr>"
  by (simp add: line_entry_def ex_lines_nonempty ex_parse_foo json_foo_def read_package_foo)

lemma line_entry_bar:
  "line_entry ex_parse line_bar
     = Some \<lparr>package = ''bar'', exports = [''g''], types = [6],
             functionInfo =
               [''f'' \<mapsto> \<lparr>function_name = ''f'', packageName = ''bar'',
                           performsNse = True, isPrimitive = False, formals = []\<rparr>]\<rparr>"
  by (simp add: line_entry_def ex_lines_nonempty ex_parse_bar json_bar_def read_package_def
        readObject4_def readObject3_def readObject2_def readObject_def fillVectorString_def
        fillVectorInt_def PackageInformation_default_def ex_function_info_lacking_def
        log_if_error_def)

lemma body_foo_cut_bar:
  "onCompleted_body ex_parse 0 waiting_foo_cut_bar =
      (None,
       idle\<lparr>s_isUpdating := True, s_pkgsToUpdate := [''foo'', ''bar''],
            logged := [LOG_ERROR_MESSAGE (failed_to_parse line_cut),
                       LOG_WARNING_MESSAGE (no_formal_information ''g''),
                       LOG_ERROR_MESSAGE ''Failed to read JSON 'functions' object to map''],
            packageInformation :=
              [''foo'' \<mapsto> the (line_entry ex_parse line_foo),
               ''bar'' \<mapsto> the (line_entry ex_parse line_bar)]\<rparr>)"
  unfolding onCompleted_body_def waiting_foo_cut_bar_def
  by (simp add: split_at_newline split_no_newline ex_lines_no_newline ex_parse_cut
        ex_parse_foo ex_parse_bar json_foo_def json_bar_def read_package_foo
        write_log_def addPackageInformation_def idle_def ex_lines_nonempty
        output_not_blank line_entry_foo line_entry_bar read_package_def
        readObject4_def readObject3_def readObject2_def readObject_def fillVectorString_def
        fillVectorInt_def PackageInformation_default_def ex_function_info_lacking_def
        log_if_error_def)

subsection \<open>onCompleted\<close>

text \<open>
  C1 (amended). On every exit path of \<open>onCompleted\<close> (the early return on empty
  output, the end of the loop, and the exception that leaves the loop) the finalizer has
  run: the pending snapshot is empty, \<open>s_isUpdating\<close> is false, and every package of the
  pending snapshot for which the index had no entry when the body was left has the
  default-constructed \<^verbatim>\<open>PackageInformation()\<close> as its entry, stored under the name of
  the package: its collections are empty and so is its \<open>package\<close> field. An entry
  that the body had written is left as it is.
\<close>

theorem onCompleted_always_finalizes:
  "fst (onCompleted parse exitStatus st) = fst (onCompleted_body parse exitStatus st)
     \<and> s_pkgsToUpdate (snd (onCompleted parse exitStatus st)) = []
     \<and> \<not> s_isUpdating (snd (onCompleted parse exitStatus st))
     \<and> (\<forall>pkg \<in> set (s_pkgsToUpdate st).
           packageInformation (snd (onCompleted parse exitStatus st)) pkg =
             (case packageInformation (snd (onCompleted_body parse exitStatus st)) pkg of
                None \<Rightarrow>
                  Some \<lparr>package = [], exports = [], types = [], functionInfo = Map.empty\<rparr>
              | Some info \<Rightarrow> Some info))"
proof -
  have "s_pkgsToUpdate (snd (onCompleted parse exitStatus st)) = []"
    and "\<not> s_isUpdating (snd (onCompleted parse exitStatus st))"
    by (simp_all add: onCompleted_snd CompleteUpdateOnExit_dtor_def)
  moreover have "\<forall>pkg \<in> set (s_pkgsToUpdate st).
           packageInformation (snd (onCompleted parse exitStatus st)) pkg =
             (case packageInformation (snd (onCompleted_body parse exitStatus st)) pkg of
                None \<Rightarrow>
                  Some \<lparr>package = [], exports = [], types = [], functionInfo = Map.empty\<rparr>
              | Some info \<Rightarrow> Some info)"
    by (simp add: onCompleted_snd dtor_index onCompleted_body_frame
          PackageInformation_default_def split: option.splits)
  ultimately show ?thesis
    by (simp add: onCompleted_fst)
qed

theorem onCompleted_always_finalizes_witness:
  "set (s_pkgsToUpdate waiting_cut_foo) = {''x'', ''foo''}
     \<and> fst (onCompleted ex_parse 0 waiting_cut_foo) = None
     \<and> s_pkgsToUpdate (snd (onCompleted ex_parse 0 waiting_cut_foo)) = []
     \<and> \<not> s_isUpdating (snd (onCompleted ex_parse 0 waiting_cut_foo))
     \<and> packageInformation (snd (onCompleted_body ex_parse 0 waiting_cut_foo)) ''x'' = None
     \<and> packageInformation (snd (onCompleted ex_parse 0 waiting_cut_foo)) ''x'' =
         Some \<lparr>package = [], exports = [], types = [], functionInfo = Map.empty\<rparr>
     \<and> packageInformation (snd (onCompleted ex_parse 0 waiting_cut_foo)) ''foo'' =
         Some \<lparr>package = ''foo'', exports = [''a'', ''b''], types = [1, 2],
               functionInfo = Map.empty\<rparr>"
proof -
  have body: "onCompleted_body ex_parse 0 waiting_cut_foo =
      (None,
       idle\<lparr>s_isUpdating := True, s_pkgsToUpdate := [''x'', ''foo''],
            logged := [LOG_ERROR_MESSAGE (failed_to_parse line_cut)],
            packageInformation :=
              [''foo'' \<mapsto> \<lparr>package = ''foo'', exports = [''a'', ''b''], types = [1, 2],
                            functionInfo = Map.empty\<rparr>]\<rparr>)"
    unfolding onCompleted_body_def waiting_cut_foo_def
    by (simp add: split_at_newline split_no_newline ex_lines_no_newline ex_parse_cut ex_parse_foo json_foo_def read_package_foo
          write_log_def addPackageInformation_def idle_def ex_lines_nonempty
          output_not_blank)
  have pending: "s_pkgsToUpdate waiting_cut_foo = [''x'', ''foo'']"
    by (simp add: waiting_cut_foo_def)
  from onCompleted_always_finalizes [of ex_parse 0 waiting_cut_foo]
  show ?thesis
    by (simp add: body pending idle_def)
qed

text \<open>
  C1 as stated fails: the placeholder is stored under the name of the package, but its
  own \<open>package\<close> field is not set. For the pending packages \<open>x\<close> and \<open>y\<close> and
  empty output, the entry of \<open>x\<close> is \<^verbatim>\<open>PackageInformation()\<close>, whose name is the empty
  string.
\<close>

theorem placeholder_has_no_package_name:
  "packageInformation (snd (onCompleted_body ex_parse 0 waiting_xy)) ''x'' = None
     \<and> packageInformation (snd (onCompleted ex_parse 0 waiting_xy)) ''x''
         = Some PackageInformation_default
     \<and> package PackageInformation_default \<noteq> ''x''"
  by (simp add: onCompleted_snd dtor_index onCompleted_body_def waiting_xy_def idle_def
        PackageInformation_default_def)

text \<open>
  C6. A non-empty line that \<open>parse\<close> rejects adds one entry to the log, whose text
  holds the first 60 characters of the line, followed by \<^verbatim>\<open>...\<close> exactly when the line
  is longer than that, and the loop goes on with the next line in an otherwise unchanged
  state. In particular, when the output is a valid line, the rejected line and another
  valid line, \<open>onCompleted\<close> returns normally and the index holds the records of both
  valid lines (that of the later one if they name the same package).
\<close>

theorem parse_failure_skips_line_only:
  assumes "line \<noteq> []" and "parse line = None"
  shows "process_lines parse (line # splat) st =
           process_lines parse splat
             (st\<lparr>logged := logged st
                @ [LOG_ERROR_MESSAGE
                     (''Failed to parse JSON: '' @ [CHR 0x27]
                        @ take 60 line @ (if 60 < length line then ''...'' else [])
                        @ [CHR 0x27])]\<rparr>)
       \<and> (line_entry parse first = Some info1 \<longrightarrow>
            line_entry parse third = Some info3 \<longrightarrow>
            CHR 0x0A \<notin> set first \<union> set line \<union> set third \<longrightarrow>
            stdOut st = first @ [CHR 0x0A] @ line @ [CHR 0x0A] @ third \<longrightarrow>
              fst (onCompleted parse exitStatus st) = None
              \<and> packageInformation (snd (onCompleted parse exitStatus st)) (package info3)
                  = Some info3
              \<and> packageInformation (snd (onCompleted parse exitStatus st)) (package info1)
                  = Some (if package info1 = package info3 then info3 else info1))"
proof -
  have skip: "\<And>splat st. process_lines parse (line # splat) st =
           process_lines parse splat
             (st\<lparr>logged := logged st
                @ [LOG_ERROR_MESSAGE
                     (''Failed to parse JSON: '' @ [CHR 0x27]
                        @ take 60 line @ (if 60 < length line then ''...'' else [])
                        @ [CHR 0x27])]\<rparr>)"
    using assms by (simp add: write_log_def failed_to_parse_def)
  have three: "fst (onCompleted parse exitStatus st) = None
              \<and> packageInformation (snd (onCompleted parse exitStatus st)) (package info3)
                  = Some info3
              \<and> packageInformation (snd (onCompleted parse exitStatus st)) (package info1)
                  = Some (if package info1 = package info3 then info3 else info1)"
    if e1: "line_entry parse first = Some info1"
      and e3: "line_entry parse third = Some info3"
      and nl: "CHR 0x0A \<notin> set first \<union> set line \<union> set third"
      and out: "stdOut st = first @ [CHR 0x0A] @ line @ [CHR 0x0A] @ third"
  proof -
    let ?st0 = "st\<lparr>stdOut := []\<rparr>"
    have ne: "first \<noteq> []"
      using e1 by (rule line_entry_nonempty)
    have pieces: "split (stdOut st) = [first, line, third]"
      using nl by (simp add: out split_at_newline split_no_newline)
    have body: "onCompleted_body parse exitStatus st
                  = process_lines parse [first, line, third] ?st0"
      using output_not_blank [OF ne, of "line @ [CHR 0x0A] @ third"] pieces
      by (simp add: onCompleted_body_def Let_def out)
    from process_lines_entry [OF e1, of "[line, third]" ?st0]
    obtain lg1 where s1: "process_lines parse [first, line, third] ?st0 =
        process_lines parse [line, third]
          (?st0\<lparr>logged := lg1,
                packageInformation := (packageInformation ?st0)(package info1 \<mapsto> info1)\<rparr>)"
      by blast
    let ?st1 = "?st0\<lparr>logged := lg1,
                packageInformation := (packageInformation ?st0)(package info1 \<mapsto> info1)\<rparr>"
    let ?st2 = "?st1\<lparr>logged := logged ?st1
                @ [LOG_ERROR_MESSAGE
                     (''Failed to parse JSON: '' @ [CHR 0x27]
                        @ take 60 line @ (if 60 < length line then ''...'' else [])
                        @ [CHR 0x27])]\<rparr>"
    have s2: "process_lines parse [line, third] ?st1 = process_lines parse [third] ?st2"
      by (rule skip)
    from process_lines_entry [OF e3, of "[]" ?st2]
    obtain lg3 where s3: "process_lines parse [third] ?st2 =
        process_lines parse []
          (?st2\<lparr>logged := lg3,
                packageInformation := (packageInformation ?st2)(package info3 \<mapsto> info3)\<rparr>)"
      by blast
    let ?st3 = "?st2\<lparr>logged := lg3,
                packageInformation := (packageInformation ?st2)(package info3 \<mapsto> info3)\<rparr>"
    have result: "onCompleted_body parse exitStatus st = (None, ?st3)"
      by (simp only: body s1 s2 s3 process_lines.simps(1))
    have index: "packageInformation ?st3
                   = (packageInformation st)(package info1 \<mapsto> info1, package info3 \<mapsto> info3)"
      by simp
    show ?thesis
      unfolding onCompleted_fst onCompleted_snd result fst_conv snd_conv dtor_index index
      by simp
  qed
  from skip three show ?thesis
    by blast
qed

theorem parse_failure_skips_line_only_witness:
  "line_cut \<noteq> [] \<and> ex_parse line_cut = None \<and> 60 < length line_cut
     \<and> line_entry ex_parse line_foo
         = Some \<lparr>package = ''foo'', exports = [''a'', ''b''], types = [1, 2],
                 functionInfo = Map.empty\<rparr>
     \<and> map_option package (line_entry ex_parse line_bar) = Some ''bar''
     \<and> CHR 0x0A \<notin> set line_foo \<union> set line_cut \<union> set line_bar
     \<and> fst (onCompleted ex_parse 0 waiting_foo_cut_bar) = None
     \<and> packageInformation (snd (onCompleted ex_parse 0 waiting_foo_cut_bar)) ''foo''
         = line_entry ex_parse line_foo
     \<and> packageInformation (snd (onCompleted ex_parse 0 waiting_foo_cut_bar)) ''bar''
         = line_entry ex_parse line_bar
     \<and> logged (snd (process_lines ex_parse [line_cut] idle))
         = [LOG_ERROR_MESSAGE
              (''Failed to parse JSON: '' @ [CHR 0x27] @ take 60 line_cut @ ''...''
                 @ [CHR 0x27])]"
proof -
  have h1: "line_cut \<noteq> []"
    by (rule ex_lines_nonempty)
  have h2: "ex_parse line_cut = None"
    by (rule ex_parse_cut)
  have long: "60 < length line_cut"
    by (simp add: line_cut_def)
  have nl: "CHR 0x0A \<notin> set line_foo \<union> set line_cut \<union> set line_bar"
    by (simp add: ex_lines_no_newline)
  have out: "stdOut waiting_foo_cut_bar
               = line_foo @ [CHR 0x0A] @ line_cut @ [CHR 0x0A] @ line_bar"
    by (simp add: waiting_foo_cut_bar_def)
  note inst = parse_failure_skips_line_only
         [where parse = ex_parse and line = line_cut and first = line_foo
            and third = line_bar and st = waiting_foo_cut_bar and exitStatus = 0,
          OF h1 h2]
  from inst [THEN conjunct2, rule_format, OF line_entry_foo line_entry_bar nl out]
  have three: "fst (onCompleted ex_parse 0 waiting_foo_cut_bar) = None
          \<and> packageInformation (snd (onCompleted ex_parse 0 waiting_foo_cut_bar)) ''bar''
              = line_entry ex_parse line_bar
          \<and> packageInformation (snd (onCompleted ex_parse 0 waiting_foo_cut_bar)) ''foo''
              = line_entry ex_parse line_foo"
    by (simp add: line_entry_foo line_entry_bar)
  have logline: "logged (snd (process_lines ex_parse [line_cut] idle))
         = [LOG_ERROR_MESSAGE
              (''Failed to parse JSON: '' @ [CHR 0x27] @ take 60 line_cut @ ''...''
                 @ [CHR 0x27])]"
    using h1 h2 long by (simp add: write_log_def failed_to_parse_def idle_def)
  show ?thesis
    using three logline h1 h2 long nl
    by (simp add: line_entry_foo line_entry_bar)
qed

text \<open>
  C3 does not hold of the code. A line that parses to a value that is not an object is
  not logged and skipped: \<^verbatim>\<open>value.get_obj()\<close> is called without a type check and throws,
  which ends the loop. For the output \<^verbatim>\<open>[1,2]\<close> followed by the valid line for
  \<open>foo\<close>, with \<open>foo\<close> pending, \<open>onCompleted\<close> ends by the exception, nothing is
  logged, and \<open>foo\<close> receives the placeholder of the finalizer instead of the record
  of its line. (A record that is an object and fails the structural read is logged and
  skipped, as \<open>process_lines_structural_read_failure\<close> shows.)
\<close>

theorem non_object_line_aborts_batch:
  "ex_parse line_array = Some (JArray [JInt 1, JInt 2])
     \<and> fst (onCompleted ex_parse 0 waiting_array_foo)
         = Some (runtime_error ArrayType ObjectType)
     \<and> logged (snd (onCompleted ex_parse 0 waiting_array_foo)) = []
     \<and> packageInformation (snd (onCompleted ex_parse 0 waiting_array_foo)) ''foo''
         = Some PackageInformation_default
     \<and> line_entry ex_parse line_foo \<noteq> Some PackageInformation_default"
proof -
  have body: "onCompleted_body ex_parse 0 waiting_array_foo =
      (Some (runtime_error ArrayType ObjectType),
       idle\<lparr>s_isUpdating := True, s_pkgsToUpdate := [''foo'']\<rparr>)"
    unfolding onCompleted_body_def waiting_array_foo_def
    by (simp add: split_at_newline split_no_newline ex_lines_no_newline ex_parse_array
          idle_def ex_lines_nonempty output_not_blank)
  show ?thesis
    by (simp add: onCompleted_fst onCompleted_snd body dtor_index ex_parse_array
          line_entry_foo PackageInformation_default_def CompleteUpdateOnExit_dtor_def
          hasInformation_def addPackageInformation_def idle_def)
qed

text \<open>
  C9. The result of \<open>onCompleted\<close> does not depend on the exit status: two calls on
  the same state (the same buffered output included) with different exit statuses return
  the same exception status and the same index, pending snapshot and in-progress flag.
\<close>

theorem onCompleted_ignores_exitStatus:
  "onCompleted parse exitStatus st = onCompleted parse exitStatus' st"
  by (simp add: onCompleted_def onCompleted_body_def)

text \<open>
  C8. Merging is idempotent. Take a valid line of the output of a cycle that ran through
  all its lines, and a second cycle that starts from the index the first one left and
  receives the same output (the pending snapshot, the in-progress flag and the exit
  status of the second cycle are arbitrary). After the second cycle the index entry of the package of
  that line is the entry it had after the first. For the line on its own: processing it
  replaces the entry of its package by its record, whatever was there, so that
  processing it twice gives the same index as processing it once.
\<close>

theorem merging_twice_equals_merging_once:
  assumes "line \<in> set (split (stdOut st))"
    and "line_entry parse line = Some info"
    and "fst (onCompleted parse exitStatus st) = None"
    and "packageInformation st' = packageInformation (snd (onCompleted parse exitStatus st))"
    and "stdOut st' = stdOut st"
  shows "packageInformation (snd (onCompleted parse exitStatus st)) (package info) \<noteq> None
       \<and> packageInformation (snd (onCompleted parse exitStatus' st')) (package info)
           = packageInformation (snd (onCompleted parse exitStatus st)) (package info)
       \<and> packageInformation (snd (process_lines parse [line] st0))
           = (packageInformation st0)(package info \<mapsto> info)
       \<and> packageInformation (snd (process_lines parse [line] (snd (process_lines parse [line] st0))))
           = packageInformation (snd (process_lines parse [line] st0))"
proof -
  let ?p = "package info"
  let ?splat = "split (stdOut st)"
  have ne: "line \<noteq> []"
    using assms(2) by (rule line_entry_nonempty)
  have body1: "onCompleted_body parse exitStatus st
                 = process_lines parse ?splat (st\<lparr>stdOut := []\<rparr>)"
    using assms(1) ne by (rule onCompleted_body_lines)
  have body2: "onCompleted_body parse exitStatus' st'
                 = process_lines parse ?splat (st'\<lparr>stdOut := []\<rparr>)"
    using onCompleted_body_lines [of line st' parse exitStatus'] assms(1) ne
    by (simp add: assms(5))
  from process_lines_index [of parse ?splat] obtain G where
    index: "\<And>s. packageInformation (snd (process_lines parse ?splat s))
                  = packageInformation s ++ G"
    by blast
  have completed: "fst (process_lines parse ?splat (st\<lparr>stdOut := []\<rparr>)) = None"
    using assms(3) by (simp add: onCompleted_fst body1)
  from process_lines_reaches_entry [OF assms(1,2) completed]
  have "(packageInformation st ++ G) ?p \<noteq> None"
    by (simp add: index)
  then have "\<exists>e. (packageInformation st ++ G) ?p = Some e"
    by (simp only: not_None_eq)
  then obtain e where e: "(packageInformation st ++ G) ?p = Some e" ..
  have first: "packageInformation (snd (onCompleted parse exitStatus st)) ?p = Some e"
    by (simp add: onCompleted_snd dtor_index body1 index e)
  have "(packageInformation st' ++ G) ?p = Some e"
  proof (cases "G ?p")
    case None
    with first show ?thesis
      by (simp add: map_add_def assms(4))
  next
    case (Some x)
    with e show ?thesis
      by (simp add: map_add_def)
  qed
  then have second: "packageInformation (snd (onCompleted parse exitStatus' st')) ?p = Some e"
    by (simp add: onCompleted_snd dtor_index body2 index)
  have once: "\<And>s. packageInformation (snd (process_lines parse [line] s))
                  = (packageInformation s)(?p \<mapsto> info)"
  proof -
    fix s :: state
    from process_lines_entry [OF assms(2), of "[]" s]
    obtain lg where "process_lines parse [line] s =
        process_lines parse []
          (s\<lparr>logged := lg, packageInformation := (packageInformation s)(?p \<mapsto> info)\<rparr>)"
      by blast
    then show "packageInformation (snd (process_lines parse [line] s))
                 = (packageInformation s)(?p \<mapsto> info)"
      by simp
  qed
  have twice: "packageInformation
                 (snd (process_lines parse [line] (snd (process_lines parse [line] st0))))
               = packageInformation (snd (process_lines parse [line] st0))"
    by (simp only: once fun_upd_upd)
  from first second once [of st0] twice show ?thesis
    by simp
qed

theorem merging_twice_equals_merging_once_witness:
  "line_foo \<in> set (split (stdOut waiting_foo_cut_bar))
     \<and> line_entry ex_parse line_foo
         = Some \<lparr>package = ''foo'', exports = [''a'', ''b''], types = [1, 2],
                 functionInfo = Map.empty\<rparr>
     \<and> fst (onCompleted ex_parse 0 waiting_foo_cut_bar) = None
     \<and> packageInformation second_cycle
         = packageInformation (snd (onCompleted ex_parse 0 waiting_foo_cut_bar))
     \<and> stdOut second_cycle = stdOut waiting_foo_cut_bar
     \<and> packageInformation (snd (onCompleted ex_parse 1 second_cycle)) ''foo''
         = packageInformation (snd (onCompleted ex_parse 0 waiting_foo_cut_bar)) ''foo''
     \<and> packageInformation (snd (onCompleted ex_parse 0 waiting_foo_cut_bar)) ''foo''
         = Some \<lparr>package = ''foo'', exports = [''a'', ''b''], types = [1, 2],
                 functionInfo = Map.empty\<rparr>"
proof -
  have h1: "line_foo \<in> set (split (stdOut waiting_foo_cut_bar))"
    by (simp add: waiting_foo_cut_bar_def split_at_newline split_no_newline
          ex_lines_no_newline)
  have h3: "fst (onCompleted ex_parse 0 waiting_foo_cut_bar) = None"
    by (simp add: onCompleted_fst body_foo_cut_bar)
  have h4: "packageInformation second_cycle
              = packageInformation (snd (onCompleted ex_parse 0 waiting_foo_cut_bar))"
    by (simp add: second_cycle_def)
  have h5: "stdOut second_cycle = stdOut waiting_foo_cut_bar"
    by (simp add: second_cycle_def)
  have once: "packageInformation (snd (onCompleted ex_parse 0 waiting_foo_cut_bar)) ''foo''
         = Some \<lparr>package = ''foo'', exports = [''a'', ''b''], types = [1, 2],
                 functionInfo = Map.empty\<rparr>"
    by (simp add: onCompleted_snd dtor_index body_foo_cut_bar line_entry_foo)
  from merging_twice_equals_merging_once
         [where parse = ex_parse and exitStatus' = 1, OF h1 line_entry_foo h3 h4 h5]
  show ?thesis
    using h1 h3 h4 h5 once by (simp add: line_entry_foo)
qed

end
